theory Spec2Isabelle
  imports Complex_Main "HOL-Library.Word"
begin

section \<open>JavaScript values used by the teleprompter\<close>

text \<open>
  JavaScript numbers are modelled as exact reals extended with the three non-finite
  values; rounding of IEEE doubles and the sign of zero are not modelled.  Division,
  multiplication, subtraction and comparison follow ECMAScript on these values.
\<close>

datatype jsnum = Num real | PInf | NInf | NaN

fun js_div :: "jsnum \<Rightarrow> jsnum \<Rightarrow> jsnum" where
  "js_div NaN _ = NaN"
| "js_div _ NaN = NaN"
| "js_div (Num a) (Num b) =
     (if b = 0 then (if a = 0 then NaN else if 0 < a then PInf else NInf) else Num (a / b))"
| "js_div (Num a) PInf = Num 0"
| "js_div (Num a) NInf = Num 0"
| "js_div PInf (Num b) = (if 0 \<le> b then PInf else NInf)"
| "js_div NInf (Num b) = (if 0 \<le> b then NInf else PInf)"
| "js_div _ _ = NaN"

fun js_mul :: "jsnum \<Rightarrow> jsnum \<Rightarrow> jsnum" where
  "js_mul NaN _ = NaN"
| "js_mul _ NaN = NaN"
| "js_mul (Num a) (Num b) = Num (a * b)"
| "js_mul (Num a) PInf = (if a = 0 then NaN else if 0 < a then PInf else NInf)"
| "js_mul (Num a) NInf = (if a = 0 then NaN else if 0 < a then NInf else PInf)"
| "js_mul PInf (Num b) = (if b = 0 then NaN else if 0 < b then PInf else NInf)"
| "js_mul NInf (Num b) = (if b = 0 then NaN else if 0 < b then NInf else PInf)"
| "js_mul PInf PInf = PInf"
| "js_mul NInf NInf = PInf"
| "js_mul PInf NInf = NInf"
| "js_mul NInf PInf = NInf"

fun js_sub :: "jsnum \<Rightarrow> jsnum \<Rightarrow> jsnum" where
  "js_sub NaN _ = NaN"
| "js_sub _ NaN = NaN"
| "js_sub (Num a) (Num b) = Num (a - b)"
| "js_sub (Num a) PInf = NInf"
| "js_sub (Num a) NInf = PInf"
| "js_sub PInf (Num b) = PInf"
| "js_sub NInf (Num b) = NInf"
| "js_sub PInf NInf = PInf"
| "js_sub NInf PInf = NInf"
| "js_sub PInf PInf = NaN"
| "js_sub NInf NInf = NaN"

fun js_ge :: "jsnum \<Rightarrow> jsnum \<Rightarrow> bool" where
  "js_ge NaN _ = False"
| "js_ge _ NaN = False"
| "js_ge (Num a) (Num b) = (b \<le> a)"
| "js_ge PInf _ = True"
| "js_ge _ NInf = True"
| "js_ge (Num a) PInf = False"
| "js_ge NInf _ = False"

text \<open>
  Strings are lists of 8-bit code units.  \<open>is_ws\<close> is the white space of \<open>\s\<close> and of
  \<open>String.prototype.trim\<close> within that range (tab, line feed, vertical tab, form feed,
  carriage return, space, no-break space).
\<close>

definition is_ws :: "char \<Rightarrow> bool" where
  "is_ws c = (c \<in> set [CHR 0x09, CHR 0x0A, CHR 0x0B, CHR 0x0C, CHR 0x0D, CHR 0x20, CHR 0xA0])"

definition trim :: "string \<Rightarrow> string" where
  "trim s = rev (dropWhile is_ws (rev (dropWhile is_ws s)))"

text \<open>\<open>str.split(/\s+/)\<close>: the pieces between maximal runs of white space, empty pieces
  at either end included.\<close>

function split_ws :: "string \<Rightarrow> string list" where
  "split_ws [] = [[]]"
| "split_ws (c # cs) =
     (if is_ws c then [] # split_ws (dropWhile is_ws cs)
      else (case split_ws cs of [] \<Rightarrow> [[c]] | t # ts \<Rightarrow> (c # t) # ts))"
  by pat_completeness auto
termination
  by (relation "measure length") (auto simp: length_dropWhile_le less_Suc_eq_le)

text \<open>\<open>str.includes(sub)\<close>.\<close>

fun str_includes :: "string \<Rightarrow> string \<Rightarrow> bool" where
  "str_includes [] sub = (sub = [])"
| "str_includes (c # cs) sub = (take (length sub) (c # cs) = sub \<or> str_includes cs sub)"

text \<open>\<open>parseInt(str)\<close> with no radix argument: leading white space, an optional sign, an
  optional \<open>0x\<close> prefix selecting radix 16, then the longest prefix of digits; \<open>NaN\<close> when
  there is no digit.\<close>

definition digit_val :: "char \<Rightarrow> nat option" where
  "digit_val c =
     (let n = (of_char c :: nat) in
      if 48 \<le> n \<and> n \<le> 57 then Some (n - 48)
      else if 97 \<le> n \<and> n \<le> 122 then Some (n - 87)
      else if 65 \<le> n \<and> n \<le> 90 then Some (n - 55)
      else None)"

fun parse_digits :: "nat \<Rightarrow> string \<Rightarrow> nat option \<Rightarrow> nat option" where
  "parse_digits R [] acc = acc"
| "parse_digits R (c # cs) acc =
     (case digit_val c of
        None \<Rightarrow> acc
      | Some d \<Rightarrow>
          if d < R
          then parse_digits R cs (Some ((case acc of None \<Rightarrow> 0 | Some a \<Rightarrow> a) * R + d))
          else acc)"

definition parseInt :: "string \<Rightarrow> jsnum" where
  "parseInt str =
     (let s0 = dropWhile is_ws str;
          (sign, s1) = (case s0 of
                          [] \<Rightarrow> (1, s0)
                        | c # r \<Rightarrow> if c = CHR ''-'' then (- 1, r)
                                   else if c = CHR ''+'' then (1, r) else (1 :: real, s0));
          (R, s2) = (if take 2 s1 = ''0x'' \<or> take 2 s1 = ''0X''
                     then (16, drop 2 s1) else (10 :: nat, s1))
      in case parse_digits R s2 None of
           None \<Rightarrow> NaN
         | Some n \<Rightarrow> Num (sign * real n))"

section \<open>Platform objects\<close>

text \<open>
  A \<open>Blob\<close> is its bytes and its type; \<open>new Blob(parts, {type})\<close> holds the bytes of the
  parts in order (File API).
\<close>

type_synonym byte = "8 word"

record Blob =
  bytes :: "byte list"
  btype :: string

definition blob_size :: "Blob \<Rightarrow> nat" where
  "blob_size b = length (bytes b)"

definition new_Blob :: "Blob list \<Rightarrow> string \<Rightarrow> Blob" where
  "new_Blob parts ty = \<lparr>bytes = concat (map bytes parts), btype = ty\<rparr>"

text \<open>A media stream is the list of its tracks, each named by a number.\<close>

record MediaStream =
  tracks :: "nat list"

datatype recorder_state = Inactive | RecordingState

record MediaRecorder =
  rec_stream :: MediaStream
  mimeType :: string
  rec_state :: recorder_state
  timeslice :: "nat option"

text \<open>
  What the browser contributes: whether \<open>window.MediaRecorder\<close> exists, the
  capability probe \<open>MediaRecorder.isTypeSupported\<close>, the container the recorder picks
  by itself when none is requested, the user agent string, and whether
  \<open>window.MSStream\<close> exists.
\<close>

record platform =
  windowMediaRecorder :: bool
  isTypeSupported :: "string \<Rightarrow> bool"
  defaultMimeType :: string
  userAgent :: string
  windowMSStream :: bool

text \<open>
  \<open>new MediaRecorder(stream, options)\<close> (MediaStream Recording): a requested type that
  is not supported throws \<open>NotSupportedError\<close>; the recorder starts inactive and its
  \<open>mimeType\<close> is the requested one, or empty.  \<open>start(timeslice)\<close> throws
  \<open>InvalidStateError\<close> unless inactive; a recorder with no requested type reports the
  platform's own choice from then on.  \<open>stop()\<close> makes the recorder inactive; the data
  and stop events it queues are delivered later, as calls of the handlers.
\<close>

definition new_MediaRecorder ::
  "platform \<Rightarrow> MediaStream \<Rightarrow> string option \<Rightarrow> string + MediaRecorder" where
  "new_MediaRecorder env ms opt =
     (case opt of
        Some t \<Rightarrow>
          if isTypeSupported env t
          then Inr \<lparr>rec_stream = ms, mimeType = t, rec_state = Inactive, timeslice = None\<rparr>
          else Inl ''NotSupportedError''
      | None \<Rightarrow> Inr \<lparr>rec_stream = ms, mimeType = [], rec_state = Inactive, timeslice = None\<rparr>)"

definition mr_start :: "platform \<Rightarrow> nat \<Rightarrow> MediaRecorder \<Rightarrow> string + MediaRecorder" where
  "mr_start env ts r =
     (if rec_state r \<noteq> Inactive then Inl ''InvalidStateError''
      else Inr (r\<lparr>rec_state := RecordingState, timeslice := Some ts,
                  mimeType := (if mimeType r = [] then defaultMimeType env else mimeType r)\<rparr>))"

definition mr_stop :: "MediaRecorder \<Rightarrow> MediaRecorder" where
  "mr_stop r = r\<lparr>rec_state := Inactive\<rparr>"

text \<open>What the page does to the outside, in the order it does it.\<close>

datatype effect =
    Alert string
  | TrackStop nat
  | GetUserMedia string
  | Download Blob string bool
  | OpenWindow Blob
  | ConsoleError string


section \<open>The stored settings\<close>

text \<open>
  \<open>localStorage\<close> holds one JSON object under the key \<open>teleprompter-settings\<close>.  A
  property that is absent or \<open>undefined\<close> is \<open>None\<close>; \<open>JSON.stringify\<close> followed by
  \<open>JSON.parse\<close> returns the object it was given.  \<open>Missing\<close> is a key that was never
  written, \<open>Corrupt\<close> a content that \<open>JSON.parse\<close> rejects.
\<close>

record position =
  p_left :: "string option"
  p_top :: "string option"
  p_width :: "string option"
  p_height :: "string option"
  p_transform :: "string option"

record settings =
  s_scriptText :: "string option"
  s_scrollSpeed :: "string option"
  s_textSize :: "string option"
  s_currentCamera :: "string option"
  s_isTextRotated :: "bool option"
  s_scriptBoxPosition :: "position option"

datatype stored = Missing | Corrupt | Stored settings

text \<open>Truthiness of a property that holds a string, or a boolean.\<close>

definition truthy_str :: "string option \<Rightarrow> bool" where
  "truthy_str v = (case v of None \<Rightarrow> False | Some s \<Rightarrow> s \<noteq> [])"

definition truthy_bool :: "bool option \<Rightarrow> bool" where
  "truthy_bool v = (case v of None \<Rightarrow> False | Some b \<Rightarrow> b)"

section \<open>The script box and the pointer gestures (setupDragAndResize)\<close>

text \<open>The window, the box and the variables of the closures; the functions on them
  are the bodies of the closures, with the event reduced to its pointer position.\<close>

record viewport =
  innerWidth :: real
  innerHeight :: real

text \<open>The box as the layout reports it (\<open>offset...\<close>) and the inline style written to
  it, in pixels.\<close>

record scriptBox =
  offsetLeft :: real
  offsetTop :: real
  offsetWidth :: real
  offsetHeight :: real
  style_left :: "real option"
  style_top :: "real option"
  style_width :: "real option"
  style_height :: "real option"
  style_transform :: "string option"
  class_dragging :: bool
  class_resizing :: bool

text \<open>The variables \<open>setupDragAndResize\<close> closes over, and \<open>this.lastDistance\<close>.\<close>

record gesture =
  isDragging :: bool
  isResizing :: bool
  startX :: real
  startY :: real
  startLeft :: real
  startTop :: real
  startWidth :: real
  startHeight :: real
  lastDistance :: "real option"

definition startDrag :: "bool \<Rightarrow> real \<Rightarrow> real \<Rightarrow> gesture \<times> scriptBox \<Rightarrow> gesture \<times> scriptBox" where
  "startDrag onResizeHandle clientX clientY gb =
     (case gb of (g, box) \<Rightarrow>
        if onResizeHandle then (g, box)
        else (g\<lparr>isDragging := True, startX := clientX, startY := clientY,
                 startLeft := offsetLeft box, startTop := offsetTop box\<rparr>,
              box\<lparr>class_dragging := True\<rparr>))"

definition drag :: "viewport \<Rightarrow> bool \<Rightarrow> real \<Rightarrow> real \<Rightarrow> gesture \<Rightarrow> scriptBox \<Rightarrow> scriptBox" where
  "drag window rotated clientX clientY g box =
     (if \<not> isDragging g then box
      else
        let deltaX = clientX - startX g;
            deltaY = clientY - startY g;
            newLeft = startLeft g + deltaX;
            newTop = startTop g + deltaY;
            newLeft = max 0 (min newLeft (innerWidth window - offsetWidth box));
            newTop = max 0 (min newTop (innerHeight window - offsetHeight box))
        in box\<lparr>style_left := Some newLeft, style_top := Some newTop,
               style_transform := Some (if rotated then ''rotate(90deg)'' else ''none'')\<rparr>)"

definition startResize :: "real \<Rightarrow> real \<Rightarrow> gesture \<times> scriptBox \<Rightarrow> gesture \<times> scriptBox" where
  "startResize clientX clientY gb =
     (case gb of (g, box) \<Rightarrow>
        (g\<lparr>isResizing := True, startX := clientX, startY := clientY,
            startWidth := offsetWidth box, startHeight := offsetHeight box\<rparr>,
         box\<lparr>class_resizing := True\<rparr>))"

definition resize :: "viewport \<Rightarrow> real \<Rightarrow> real \<Rightarrow> gesture \<Rightarrow> scriptBox \<Rightarrow> scriptBox" where
  "resize window clientX clientY g box =
     (if \<not> isResizing g then box
      else
        let deltaX = clientX - startX g;
            deltaY = clientY - startY g;
            newWidth = startWidth g + deltaX;
            newHeight = startHeight g + deltaY;
            newWidth = max 300 (min newWidth (innerWidth window * (9 / 10)));
            newHeight = max 200 (min newHeight (innerHeight window * (9 / 10)))
        in box\<lparr>style_width := Some newWidth, style_height := Some newHeight\<rparr>)"

definition mousemove :: "viewport \<Rightarrow> bool \<Rightarrow> real \<Rightarrow> real \<Rightarrow> gesture \<Rightarrow> scriptBox \<Rightarrow> scriptBox" where
  "mousemove window rotated clientX clientY g box =
     resize window clientX clientY g (drag window rotated clientX clientY g box)"

text \<open>\<open>touchmove\<close>: one finger drags and resizes like the mouse; two fingers, when no
  drag is going on, scale the box by the ratio of successive distances.\<close>

definition touchmove ::
  "viewport \<Rightarrow> bool \<Rightarrow> (real \<times> real) list \<Rightarrow> gesture \<times> scriptBox \<Rightarrow> gesture \<times> scriptBox" where
  "touchmove window rotated touches gb =
     (case gb of (g, box) \<Rightarrow>
        (case touches of
           [(x, y)] \<Rightarrow> (g, mousemove window rotated x y g box)
         | [(x1, y1), (x2, y2)] \<Rightarrow>
             if isDragging g then (g, box)
             else
               let distance = sqrt ((x2 - x1)\<^sup>2 + (y2 - y1)\<^sup>2) in
               (case lastDistance g of
                  None \<Rightarrow> (g\<lparr>lastDistance := Some distance\<rparr>, box)
                | Some prev \<Rightarrow>
                    if prev = 0 then (g\<lparr>lastDistance := Some distance\<rparr>, box)
                    else
                      let scale = distance / prev;
                          newWidth = offsetWidth box * scale;
                          newHeight = offsetHeight box * scale;
                          newWidth = max 300 (min newWidth (innerWidth window * (9 / 10)));
                          newHeight = max 200 (min newHeight (innerHeight window * (9 / 10)))
                      in (g\<lparr>lastDistance := Some distance\<rparr>,
                          box\<lparr>style_width := Some newWidth, style_height := Some newHeight\<rparr>))
         | _ \<Rightarrow> (g, box)))"

section \<open>class VideoTeleprompter (script.js)\<close>

text \<open>The values an interval callback of \<open>startScrolling\<close> closes over.\<close>

record ScrollJob =
  durationMs :: jsnum
  maxScroll :: real

text \<open>
  The fields of the object, the properties of the DOM elements it reads and writes
  (the script box and the variables of its gestures among them), and the part of the
  browser it acts on: the window, the tracks that are capturing, the interval timers
  that are scheduled, the storage, and the trace of effects.
\<close>

record vt =
  mediaRecorder :: "MediaRecorder option"
  recordedChunks :: "Blob list"
  isRecording :: bool
  isScrolling :: bool
  stream :: "MediaStream option"
  currentCamera :: string
  isTextRotated :: bool
  scrollInterval :: "nat option"
  scrollStartTime :: "real option"
  scriptInput_value :: string
  scriptInput_scrollTop :: jsnum
  scriptInput_scrollHeight :: real
  scriptInput_clientHeight :: real
  scriptInput_fontSize :: string
  scriptInput_scrolling :: bool
  speedSlider_value :: string
  speedValue_textContent :: string
  textSizeSlider_value :: string
  textSizeValue_textContent :: string
  recordButton_recording :: bool
  rotateButton_active :: bool
  scriptBox_rotated :: bool
  videoPreview_srcObject :: "MediaStream option"
  sbox :: scriptBox
  drag_vars :: gesture
  the_window :: viewport
  liveTracks :: "nat set"
  timers :: "nat \<rightharpoonup> ScrollJob"
  lastTimerId :: nat
  localStorage :: stored
  effects :: "effect list"

subsection \<open>Camera\<close>

definition stop_track :: "nat \<Rightarrow> vt \<Rightarrow> vt" where
  "stop_track t st = st\<lparr>liveTracks := liveTracks st - {t}, effects := effects st @ [TrackStop t]\<rparr>"

definition stop_all_tracks :: "MediaStream \<Rightarrow> vt \<Rightarrow> vt" where
  "stop_all_tracks ms st = foldl (\<lambda>s t. stop_track t s) st (tracks ms)"

text \<open>
  \<open>setupCamera\<close> runs up to its \<open>await\<close>: it stops the tracks of the stream it holds and
  asks for a new one.  It resumes with the answer of \<open>getUserMedia\<close>: a rejection is
  thrown to the caller with the state as it is then; a stream starts capturing and
  becomes the held and the previewed stream.
\<close>

definition setupCamera_begin :: "vt \<Rightarrow> vt" where
  "setupCamera_begin st =
     (let st1 = (case stream st of Some ms \<Rightarrow> stop_all_tracks ms st | None \<Rightarrow> st)
      in st1\<lparr>effects := effects st1 @ [GetUserMedia (currentCamera st1)]\<rparr>)"

definition setupCamera_resume :: "string + MediaStream \<Rightarrow> vt \<Rightarrow> (string \<times> vt) + vt" where
  "setupCamera_resume answer st =
     (case answer of
        Inl err \<Rightarrow> Inl (err, st)
      | Inr ms \<Rightarrow> Inr (st\<lparr>stream := Some ms, videoPreview_srcObject := Some ms,
                          liveTracks := liveTracks st \<union> set (tracks ms)\<rparr>))"

definition setupCamera :: "string + MediaStream \<Rightarrow> vt \<Rightarrow> (string \<times> vt) + vt" where
  "setupCamera answer st = setupCamera_resume answer (setupCamera_begin st)"

definition other_camera :: "string \<Rightarrow> string" where
  "other_camera c = (if c = ''user'' then ''environment'' else ''user'')"

definition switchCamera :: "string + MediaStream \<Rightarrow> vt \<Rightarrow> vt" where
  "switchCamera answer st =
     (case setupCamera answer (st\<lparr>currentCamera := other_camera (currentCamera st)\<rparr>) of
        Inr st1 \<Rightarrow> st1
      | Inl (err, st1) \<Rightarrow>
          st1\<lparr>effects := effects st1 @ [ConsoleError err],
              currentCamera := other_camera (currentCamera st1)\<rparr>)"

subsection \<open>Autoscroll\<close>

definition wordCount :: "string \<Rightarrow> nat" where
  "wordCount script = length (filter (\<lambda>word. 0 < length word) (split_ws script))"

definition scroll_durationMs :: "nat \<Rightarrow> jsnum \<Rightarrow> jsnum" where
  "scroll_durationMs wc wpm =
     (let readingTimeMinutes = js_div (js_div (Num (real wc)) wpm) (Num 10)
      in js_mul (js_mul readingTimeMinutes (Num 60)) (Num 1000))"

definition clearInterval :: "nat option \<Rightarrow> vt \<Rightarrow> vt" where
  "clearInterval h st = (case h of None \<Rightarrow> st | Some i \<Rightarrow> st\<lparr>timers := (timers st)(i := None)\<rparr>)"

definition startScrolling :: "real \<Rightarrow> vt \<Rightarrow> vt" where
  "startScrolling now st =
     (if isScrolling st then st
      else
        let script = trim (scriptInput_value st) in
        if script = [] then st
        else
          let st1 = st\<lparr>isScrolling := True, scriptInput_scrolling := True\<rparr>;
              wpm = parseInt (speedSlider_value st1);
              dur = scroll_durationMs (wordCount script) wpm;
              st2 = st1\<lparr>scriptInput_scrollTop := Num 0\<rparr>;
              maxS = scriptInput_scrollHeight st2 - scriptInput_clientHeight st2
          in if 0 < maxS
             then st2\<lparr>timers := (timers st2)(Suc (lastTimerId st2) \<mapsto>
                                     \<lparr>durationMs = dur, maxScroll = maxS\<rparr>),
                      lastTimerId := Suc (lastTimerId st2),
                      scrollInterval := Some (Suc (lastTimerId st2)),
                      scrollStartTime := Some now\<rparr>
             else st2)"

text \<open>The callback of interval \<open>i\<close>, run at time \<open>now\<close>; a cleared interval does not run.\<close>

definition scrollTick :: "nat \<Rightarrow> real \<Rightarrow> vt \<Rightarrow> vt" where
  "scrollTick i now st =
     (case timers st i of
        None \<Rightarrow> st
      | Some job \<Rightarrow>
          let progress =
                js_div (js_sub (Num now)
                               (case scrollStartTime st of None \<Rightarrow> NaN | Some t \<Rightarrow> Num t))
                       (durationMs job)
          in if js_ge progress (Num 1)
             then clearInterval (scrollInterval st)
                    (st\<lparr>scriptInput_scrollTop := Num (maxScroll job)\<rparr>)
             else st\<lparr>scriptInput_scrollTop := js_mul (Num (maxScroll job)) progress\<rparr>)"

definition stopScrolling :: "vt \<Rightarrow> vt" where
  "stopScrolling st =
     (let st1 = st\<lparr>isScrolling := False, scriptInput_scrolling := False\<rparr>;
          st2 = (case scrollInterval st1 of
                   None \<Rightarrow> st1
                 | Some i \<Rightarrow> if i \<noteq> 0
                             then (clearInterval (Some i) st1)\<lparr>scrollInterval := None\<rparr>
                             else st1)
      in st2\<lparr>scriptInput_scrollTop := Num 0\<rparr>)"

definition updateSpeedDisplay :: "real \<Rightarrow> vt \<Rightarrow> vt" where
  "updateSpeedDisplay now st =
     (let st1 = st\<lparr>speedValue_textContent := speedSlider_value st\<rparr>
      in if isScrolling st1 then startScrolling now (stopScrolling st1) else st1)"

definition updateTextSizeDisplay :: "vt \<Rightarrow> vt" where
  "updateTextSizeDisplay st =
     st\<lparr>textSizeValue_textContent := textSizeSlider_value st,
        scriptInput_fontSize := textSizeSlider_value st @ ''px''\<rparr>"

subsection \<open>Recording\<close>

definition choose_mimeType :: "platform \<Rightarrow> string" where
  "choose_mimeType env =
     (if \<not> isTypeSupported env ''video/webm;codecs=vp9,opus''
      then (if \<not> isTypeSupported env ''video/mp4''
            then (if \<not> isTypeSupported env ''video/webm;codecs=vp8,opus''
                  then (if \<not> isTypeSupported env ''video/webm'' then [] else ''video/webm'')
                  else ''video/webm;codecs=vp8,opus'')
            else ''video/mp4'')
      else ''video/webm;codecs=vp9,opus'')"

definition ondataavailable :: "Blob \<Rightarrow> vt \<Rightarrow> vt" where
  "ondataavailable d st =
     (if 0 < blob_size d then st\<lparr>recordedChunks := recordedChunks st @ [d]\<rparr> else st)"

definition saveRecording :: "platform \<Rightarrow> vt \<Rightarrow> vt" where
  "saveRecording env st =
     (if length (recordedChunks st) = 0
      then st\<lparr>effects := effects st @
                 [ConsoleError ''No recording data available'',
                  Alert ''No recording data available. Recording may have failed.'']\<rparr>
      else
        let (mime, extension) =
              (case mediaRecorder st of
                 None \<Rightarrow> (''video/webm'', ''webm'')
               | Some r \<Rightarrow>
                   if mimeType r \<noteq> []
                   then (mimeType r, if str_includes (mimeType r) ''mp4'' then ''mp4'' else ''webm'')
                   else (''video/webm'', ''webm''));
            blob = new_Blob (recordedChunks st) mime
        in if blob_size blob = 0
           then st\<lparr>effects := effects st @
                      [ConsoleError ''Empty blob created'',
                       Alert ''Recording failed: No data recorded'']\<rparr>
           else st\<lparr>effects := effects st @
                      [Download blob extension
                         (str_includes (userAgent env) ''iPhone'' \<or>
                          str_includes (userAgent env) ''iPad'')]\<rparr>)"

definition onstop :: "platform \<Rightarrow> vt \<Rightarrow> vt" where
  "onstop env st = saveRecording env st"

text \<open>
  \<open>startRecording\<close>: everything is inside one \<open>try\<close>; a rejected \<open>getUserMedia\<close>, a
  missing \<open>MediaRecorder\<close> and an exception of the recorder all end in the \<open>catch\<close>,
  which logs and alerts, with the assignments made so far kept.
\<close>

definition startRecording_catch :: "string \<Rightarrow> vt \<Rightarrow> vt" where
  "startRecording_catch msg st =
     st\<lparr>effects := effects st @ [ConsoleError msg, Alert (''Recording failed: '' @ msg)]\<rparr>"

definition startRecording :: "platform \<Rightarrow> string + MediaStream \<Rightarrow> real \<Rightarrow> vt \<Rightarrow> vt" where
  "startRecording env answer now st =
     (case (if stream st = None then setupCamera answer st else Inr st) of
        Inl (err, st1) \<Rightarrow> startRecording_catch err st1
      | Inr st1 \<Rightarrow>
          let st2 = st1\<lparr>recordedChunks := []\<rparr>;
              mime = choose_mimeType env;
              options = (if mime \<noteq> [] then Some mime else None)
          in if \<not> windowMediaRecorder env then startRecording_catch ''ReferenceError'' st2
             else
             (case stream st2 of
                None \<Rightarrow> startRecording_catch ''TypeError'' st2
              | Some ms \<Rightarrow>
                  (case new_MediaRecorder env ms options of
                     Inl err \<Rightarrow> startRecording_catch err st2
                   | Inr r \<Rightarrow>
                       (let st3 = st2\<lparr>mediaRecorder := Some r\<rparr> in
                        (case mr_start env 1000 r of
                           Inl err \<Rightarrow> startRecording_catch err st3
                         | Inr r1 \<Rightarrow>
                             startScrolling now
                               (st3\<lparr>mediaRecorder := Some r1, isRecording := True,
                                    recordButton_recording := True\<rparr>))))))"

definition stopRecording :: "vt \<Rightarrow> vt" where
  "stopRecording st =
     (case mediaRecorder st of
        None \<Rightarrow> st
      | Some r \<Rightarrow>
          if isRecording st
          then stopScrolling (st\<lparr>mediaRecorder := Some (mr_stop r), isRecording := False,
                                  recordButton_recording := False\<rparr>)
          else st)"

definition toggleRecording :: "platform \<Rightarrow> string + MediaStream \<Rightarrow> real \<Rightarrow> vt \<Rightarrow> vt" where
  "toggleRecording env answer now st =
     (if isRecording st then stopRecording st else startRecording env answer now st)"

subsection \<open>Settings\<close>

text \<open>
  \<open>saveSettings\<close> writes the five properties and no box position.  \<open>loadSettings\<close>
  assigns a property only when it is truthy; a slider is taken to keep the string
  assigned to it.
\<close>

definition saveSettings :: "vt \<Rightarrow> vt" where
  "saveSettings st =
     st\<lparr>localStorage := Stored
          \<lparr>s_scriptText = Some (scriptInput_value st),
           s_scrollSpeed = Some (speedSlider_value st),
           s_textSize = Some (textSizeSlider_value st),
           s_currentCamera = Some (currentCamera st),
           s_isTextRotated = Some (isTextRotated st),
           s_scriptBoxPosition = None\<rparr>\<rparr>"

definition loadSettings :: "vt \<Rightarrow> vt" where
  "loadSettings st =
     (case localStorage st of
        Missing \<Rightarrow> st
      | Corrupt \<Rightarrow> st\<lparr>effects := effects st @ [ConsoleError ''Failed to load settings'']\<rparr>
      | Stored settings \<Rightarrow>
          let st1 = (if truthy_str (s_scriptText settings)
                     then st\<lparr>scriptInput_value := the (s_scriptText settings)\<rparr> else st);
              st2 = (if truthy_str (s_scrollSpeed settings)
                     then st1\<lparr>speedSlider_value := the (s_scrollSpeed settings)\<rparr> else st1);
              st3 = (if truthy_str (s_textSize settings)
                     then updateTextSizeDisplay
                            (st2\<lparr>textSizeSlider_value := the (s_textSize settings)\<rparr>)
                     else st2);
              st4 = (if truthy_str (s_currentCamera settings)
                     then st3\<lparr>currentCamera := the (s_currentCamera settings)\<rparr> else st3)
          in if truthy_bool (s_isTextRotated settings)
             then st4\<lparr>isTextRotated := True, scriptBox_rotated := True,
                      rotateButton_active := True\<rparr>
             else st4)"

subsection \<open>Start-up and the event listeners\<close>

text \<open>
  The constructor on a freshly loaded page (no timer scheduled, no track capturing),
  then \<open>init\<close>: the compatibility check, which only logs and alerts, the settings are
  loaded, both displays refreshed and the camera asked for; a refusal is logged and
  the page goes on without a stream.
\<close>

definition checkCompatibility :: "platform \<Rightarrow> vt \<Rightarrow> vt" where
  "checkCompatibility env st =
     (if \<not> windowMediaRecorder env
      then st\<lparr>effects := effects st @
                 [ConsoleError ''MediaRecorder API not supported'',
                  Alert ''Your browser does not support video recording. Please use a modern browser like Chrome, Firefox, or Safari.'']\<rparr>
      else
        let supportedTypes =
              filter (isTypeSupported env)
                [''video/webm;codecs=vp9,opus'', ''video/webm;codecs=vp8,opus'',
                 ''video/webm'', ''video/mp4'']
        in if length supportedTypes = 0
           then st\<lparr>effects := effects st @
                      [Alert ''Your browser may have limited video recording support. Recording may not work properly.'']\<rparr>
           else st)"

definition new_VideoTeleprompter :: "vt \<Rightarrow> vt" where
  "new_VideoTeleprompter page =
     page\<lparr>mediaRecorder := None, recordedChunks := [], isRecording := False,
          isScrolling := False, stream := None, currentCamera := ''user'',
          isTextRotated := False, scrollInterval := None, scrollStartTime := None,
          liveTracks := {}, timers := Map.empty, effects := []\<rparr>"

definition init :: "platform \<Rightarrow> string + MediaStream \<Rightarrow> real \<Rightarrow> vt \<Rightarrow> vt" where
  "init env answer now st =
     (case setupCamera answer
             (updateTextSizeDisplay
                (updateSpeedDisplay now (loadSettings (checkCompatibility env st)))) of
        Inr st1 \<Rightarrow> st1
      | Inl (err, st1) \<Rightarrow> st1\<lparr>effects := effects st1 @ [ConsoleError err]\<rparr>)"

subsection \<open>Rotation and the gestures on the script box\<close>

definition toggleTextRotation :: "vt \<Rightarrow> vt" where
  "toggleTextRotation st =
     (let st1 = st\<lparr>isTextRotated := \<not> isTextRotated st\<rparr>;
          positioned = (style_left (sbox st1) \<noteq> None \<and> style_top (sbox st1) \<noteq> None);
          st2 = (if isTextRotated st1
                 then st1\<lparr>scriptBox_rotated := True, rotateButton_active := True,
                         sbox := (if positioned
                                 then (sbox st1)\<lparr>style_transform := Some ''rotate(90deg)''\<rparr>
                                 else sbox st1)\<rparr>
                 else st1\<lparr>scriptBox_rotated := False, rotateButton_active := False,
                         sbox := (if positioned
                                 then (sbox st1)\<lparr>style_transform := Some ''none''\<rparr>
                                 else sbox st1)\<rparr>)
      in saveSettings st2)"

definition endDrag :: "vt \<Rightarrow> vt" where
  "endDrag st =
     (if isDragging (drag_vars st)
      then saveSettings (st\<lparr>drag_vars := (drag_vars st)\<lparr>isDragging := False\<rparr>,
                           sbox := (sbox st)\<lparr>class_dragging := False\<rparr>\<rparr>)
      else st)"

definition endResize :: "vt \<Rightarrow> vt" where
  "endResize st =
     (if isResizing (drag_vars st)
      then saveSettings (st\<lparr>drag_vars := (drag_vars st)\<lparr>isResizing := False\<rparr>,
                           sbox := (sbox st)\<lparr>class_resizing := False\<rparr>\<rparr>)
      else st)"

text \<open>
  What can happen to the page afterwards: the listeners of \<open>setupEventListeners\<close> and
  of \<open>setupDragAndResize\<close>, the handlers of the recorder, the interval callback, and
  the browser laying the script and the box out again.  Each handler runs to its end,
  the answer of \<open>getUserMedia\<close> included, before the next event.
\<close>

datatype event =
    RecordClick "string + MediaStream" real
  | CameraClick "string + MediaStream"
  | RotateClick
  | SpeedInput string real
  | TextSizeInput string
  | ScriptInput string
  | SaveSettings
  | WindowResize real real
  | Layout real real
  | BoxLayout real real real real
  | HeaderMouseDown bool real real
  | HandleMouseDown real real
  | MouseMove real real
  | MouseUp
  | HeaderTouchStart bool "(real \<times> real) list"
  | HandleTouchStart "(real \<times> real) list"
  | TouchMove "(real \<times> real) list"
  | TouchEnd
  | DataAvailable Blob
  | RecorderStop
  | IntervalTick nat real

fun handle :: "platform \<Rightarrow> event \<Rightarrow> vt \<Rightarrow> vt" where
  "handle env (RecordClick answer now) st = toggleRecording env answer now st"
| "handle env (CameraClick answer) st = switchCamera answer st"
| "handle env (SpeedInput v now) st = updateSpeedDisplay now (st\<lparr>speedSlider_value := v\<rparr>)"
| "handle env RotateClick st = toggleTextRotation st"
| "handle env SaveSettings st = saveSettings st"
| "handle env (WindowResize w h) st =
     saveSettings (st\<lparr>the_window := \<lparr>innerWidth = w, innerHeight = h\<rparr>\<rparr>)"
| "handle env (BoxLayout l t w h) st =
     st\<lparr>sbox := (sbox st)\<lparr>offsetLeft := l, offsetTop := t, offsetWidth := w,
                           offsetHeight := h\<rparr>\<rparr>"
| "handle env (HeaderMouseDown onHandle x y) st =
     (case startDrag onHandle x y (drag_vars st, sbox st) of
        (g, b) \<Rightarrow> st\<lparr>drag_vars := g, sbox := b\<rparr>)"
| "handle env (HandleMouseDown x y) st =
     (case startResize x y (drag_vars st, sbox st) of
        (g, b) \<Rightarrow> st\<lparr>drag_vars := g, sbox := b\<rparr>)"
| "handle env (MouseMove x y) st =
     st\<lparr>sbox := mousemove (the_window st) (isTextRotated st) x y (drag_vars st) (sbox st)\<rparr>"
| "handle env MouseUp st = endResize (endDrag st)"
| "handle env (HeaderTouchStart onHandle touches) st =
     (case touches of
        [(x, y)] \<Rightarrow>
          (case startDrag onHandle x y (drag_vars st, sbox st) of
             (g, b) \<Rightarrow> st\<lparr>drag_vars := g, sbox := b\<rparr>)
      | _ \<Rightarrow> st)"
| "handle env (HandleTouchStart touches) st =
     (case touches of
        [(x, y)] \<Rightarrow>
          (case startResize x y (drag_vars st, sbox st) of
             (g, b) \<Rightarrow> st\<lparr>drag_vars := g, sbox := b\<rparr>)
      | _ \<Rightarrow> st)"
| "handle env (TouchMove touches) st =
     (case touchmove (the_window st) (isTextRotated st) touches (drag_vars st, sbox st) of
        (g, b) \<Rightarrow> st\<lparr>drag_vars := g, sbox := b\<rparr>)"
| "handle env TouchEnd st =
     (let st1 = endResize (endDrag st)
      in st1\<lparr>drag_vars := (drag_vars st1)\<lparr>lastDistance := None\<rparr>\<rparr>)"
| "handle env (TextSizeInput v) st = updateTextSizeDisplay (st\<lparr>textSizeSlider_value := v\<rparr>)"
| "handle env (ScriptInput v) st = saveSettings (st\<lparr>scriptInput_value := v\<rparr>)"
| "handle env (Layout sh ch) st =
     st\<lparr>scriptInput_scrollHeight := sh, scriptInput_clientHeight := ch\<rparr>"
| "handle env (DataAvailable d) st = ondataavailable d st"
| "handle env RecorderStop st = onstop env st"
| "handle env (IntervalTick i now) st = scrollTick i now st"

definition run :: "platform \<Rightarrow> event list \<Rightarrow> vt \<Rightarrow> vt" where
  "run env evs st = foldl (\<lambda>s e. handle env e s) st evs"

text \<open>The offsets one scroll job writes, tick by tick, until the callback clears its
  interval.\<close>

fun scroll_writes :: "nat \<Rightarrow> real list \<Rightarrow> vt \<Rightarrow> jsnum list" where
  "scroll_writes i [] st = []"
| "scroll_writes i (now # ts) st =
     (if timers st i = None then []
      else scriptInput_scrollTop (scrollTick i now st) # scroll_writes i ts (scrollTick i now st))"

section \<open>The second class VideoTeleprompter of script.js: its settings\<close>

text \<open>The copy of the class that starts at line 655 keeps no camera choice and no
  rotation, and stores the inline style of the script box.\<close>

record vt2 =
  scriptInput_value2 :: string
  scriptInput_fontSize2 :: string
  speedSlider_value2 :: string
  textSizeSlider_value2 :: string
  textSizeValue_textContent2 :: string
  scriptBox_style_left :: string
  scriptBox_style_top :: string
  scriptBox_style_width :: string
  scriptBox_style_height :: string
  scriptBox_style_transform :: string
  localStorage2 :: stored

definition updateTextSizeDisplay2 :: "vt2 \<Rightarrow> vt2" where
  "updateTextSizeDisplay2 st =
     st\<lparr>textSizeValue_textContent2 := textSizeSlider_value2 st @ ''px'',
        scriptInput_fontSize2 := textSizeSlider_value2 st @ ''px''\<rparr>"

definition saveSettings2 :: "vt2 \<Rightarrow> vt2" where
  "saveSettings2 st =
     st\<lparr>localStorage2 := Stored
          \<lparr>s_scriptText = Some (scriptInput_value2 st),
           s_scrollSpeed = Some (speedSlider_value2 st),
           s_textSize = Some (textSizeSlider_value2 st),
           s_currentCamera = None,
           s_isTextRotated = None,
           s_scriptBoxPosition = Some
             \<lparr>p_left = Some (scriptBox_style_left st),
              p_top = Some (scriptBox_style_top st),
              p_width = Some (scriptBox_style_width st),
              p_height = Some (scriptBox_style_height st),
              p_transform = Some (scriptBox_style_transform st)\<rparr>\<rparr>\<rparr>"

definition loadSettings2 :: "vt2 \<Rightarrow> vt2" where
  "loadSettings2 st =
     (case localStorage2 st of
        Missing \<Rightarrow> st
      | Corrupt \<Rightarrow> st
      | Stored settings \<Rightarrow>
          let st1 = (if truthy_str (s_scriptText settings)
                     then st\<lparr>scriptInput_value2 := the (s_scriptText settings)\<rparr> else st);
              st2 = (if truthy_str (s_scrollSpeed settings)
                     then st1\<lparr>speedSlider_value2 := the (s_scrollSpeed settings)\<rparr> else st1);
              st3 = (if truthy_str (s_textSize settings)
                     then updateTextSizeDisplay2
                            (st2\<lparr>textSizeSlider_value2 := the (s_textSize settings)\<rparr>)
                     else st2)
          in (case s_scriptBoxPosition settings of
               None \<Rightarrow> st3
             | Some pos \<Rightarrow>
                 let st4 = (if truthy_str (p_left pos)
                            then st3\<lparr>scriptBox_style_left := the (p_left pos)\<rparr> else st3);
                     st5 = (if truthy_str (p_top pos)
                            then st4\<lparr>scriptBox_style_top := the (p_top pos)\<rparr> else st4);
                     st6 = (if truthy_str (p_width pos)
                            then st5\<lparr>scriptBox_style_width := the (p_width pos)\<rparr> else st5);
                     st7 = (if truthy_str (p_height pos)
                            then st6\<lparr>scriptBox_style_height := the (p_height pos)\<rparr> else st6)
                 in if truthy_str (p_transform pos)
                    then st7\<lparr>scriptBox_style_transform := the (p_transform pos)\<rparr>
                    else st7))"

section \<open>The component classes: VideoComponent, ScriptComponent, ControlsComponent, VideoTeleprompterApp\<close>

text \<open>
  One record holds the three components the application object owns.  Of
  \<open>ScriptComponent\<close> only what starting and stopping the scroll touches is kept: the
  flag, the handle of the pending animation frame and the frames that are pending.
\<close>

record app =
  vc_stream :: "MediaStream option"
  vc_mediaRecorder :: "MediaRecorder option"
  vc_recordedChunks :: "Blob list"
  vc_isRecording :: bool
  vc_currentCamera :: string
  sc_isScrolling :: bool
  sc_scrollAnimation :: "nat option"
  sc_class_scrolling :: bool
  cc_recordButton_recording :: bool
  pendingFrames :: "nat set"
  lastFrameId :: nat
  app_effects :: "effect list"

definition typesToCheck :: "string list" where
  "typesToCheck =
     [''video/webm;codecs=vp9,opus'', ''video/webm;codecs=vp8,opus'', ''video/webm'',
      ''video/mp4;codecs=h264,aac'', ''video/mp4'']"

text \<open>\<open>checkRecordingCompatibility\<close> returns \<open>false\<close> (\<open>None\<close>) or the supported types.\<close>

definition checkRecordingCompatibility :: "platform \<Rightarrow> app \<Rightarrow> string list option \<times> app" where
  "checkRecordingCompatibility env st =
     (if \<not> windowMediaRecorder env
      then (None, st\<lparr>app_effects := app_effects st @
                       [ConsoleError ''MediaRecorder API not supported'',
                        Alert ''Your browser does not support video recording.'']\<rparr>)
      else
        let supportedTypes = filter (isTypeSupported env) typesToCheck in
        if length supportedTypes = 0
        then (None, st\<lparr>app_effects := app_effects st @
                         [ConsoleError ''No supported video formats found'',
                          Alert ''Your browser does not support any compatible video recording formats.'']\<rparr>)
        else (Some supportedTypes, st))"

definition VideoComponent_startRecording :: "platform \<Rightarrow> app \<Rightarrow> bool \<times> app" where
  "VideoComponent_startRecording env st =
     (case vc_stream st of
        None \<Rightarrow> (False, st\<lparr>app_effects := app_effects st @ [ConsoleError ''No video stream available'']\<rparr>)
      | Some ms \<Rightarrow>
          (case checkRecordingCompatibility env st of
             (None, st1) \<Rightarrow> (False, st1)
           | (Some supportedTypes, st1) \<Rightarrow>
               (case supportedTypes of
                  [] \<Rightarrow> (False, st1)
                | mime # _ \<Rightarrow>
                    (let st2 = st1\<lparr>vc_recordedChunks := []\<rparr> in
                     (case new_MediaRecorder env ms (Some mime) of
                        Inl err \<Rightarrow>
                          (False, st2\<lparr>app_effects := app_effects st2 @
                                        [ConsoleError err,
                                         Alert ''Failed to start recording. Please try again.'']\<rparr>)
                      | Inr r \<Rightarrow>
                          (let st3 = st2\<lparr>vc_mediaRecorder := Some r\<rparr> in
                           (case mr_start env 1000 r of
                              Inl err \<Rightarrow>
                                (False, st3\<lparr>app_effects := app_effects st3 @
                                              [ConsoleError err,
                                               Alert ''Failed to start recording. Please try again.'']\<rparr>)
                            | Inr r1 \<Rightarrow>
                                (True, st3\<lparr>vc_mediaRecorder := Some r1,
                                           vc_isRecording := True\<rparr>))))))))"

definition VideoComponent_stopRecording :: "app \<Rightarrow> bool \<times> app" where
  "VideoComponent_stopRecording st =
     (case vc_mediaRecorder st of
        None \<Rightarrow> (False, st)
      | Some r \<Rightarrow>
          if vc_isRecording st
          then (True, st\<lparr>vc_mediaRecorder := Some (mr_stop r), vc_isRecording := False\<rparr>)
          else (False, st))"

definition VideoComponent_ondataavailable :: "Blob \<Rightarrow> app \<Rightarrow> app" where
  "VideoComponent_ondataavailable d st =
     (if 0 < blob_size d then st\<lparr>vc_recordedChunks := vc_recordedChunks st @ [d]\<rparr> else st)"

definition downloadRecording :: "platform \<Rightarrow> app \<Rightarrow> app" where
  "downloadRecording env st =
     (case vc_recordedChunks st of
        [] \<Rightarrow> st\<lparr>app_effects := app_effects st @ [ConsoleError ''No recorded data to download'']\<rparr>
      | first # _ \<Rightarrow>
          let blob = new_Blob (vc_recordedChunks st) (btype first);
              extension = (if str_includes (btype blob) ''mp4'' then ''mp4'' else ''webm'');
              isIOSSafari = ((str_includes (userAgent env) ''iPad'' \<or>
                              str_includes (userAgent env) ''iPhone'' \<or>
                              str_includes (userAgent env) ''iPod'') \<and> \<not> windowMSStream env)
          in st\<lparr>app_effects := app_effects st @
                   [if isIOSSafari then OpenWindow blob else Download blob extension False],
                vc_recordedChunks := []\<rparr>)"

definition startScroll :: "app \<Rightarrow> app" where
  "startScroll st =
     (if sc_isScrolling st then st
      else st\<lparr>sc_isScrolling := True, sc_class_scrolling := True,
              sc_scrollAnimation := Some (Suc (lastFrameId st)),
              pendingFrames := insert (Suc (lastFrameId st)) (pendingFrames st),
              lastFrameId := Suc (lastFrameId st)\<rparr>)"

definition stopScroll :: "app \<Rightarrow> app" where
  "stopScroll st =
     (let st1 = st\<lparr>sc_isScrolling := False, sc_class_scrolling := False\<rparr>
      in case sc_scrollAnimation st1 of
           None \<Rightarrow> st1
         | Some i \<Rightarrow> if i \<noteq> 0
                     then st1\<lparr>pendingFrames := pendingFrames st1 - {i},
                              sc_scrollAnimation := None\<rparr>
                     else st1)"

definition ControlsComponent_toggleRecording :: "platform \<Rightarrow> app \<Rightarrow> app" where
  "ControlsComponent_toggleRecording env st =
     (if vc_stream st = None
      then st\<lparr>app_effects := app_effects st @ [Alert ''Please allow camera access first.'']\<rparr>
      else if vc_isRecording st
      then (case VideoComponent_stopRecording st of
              (success, st1) \<Rightarrow>
                if success then (stopScroll st1)\<lparr>cc_recordButton_recording := False\<rparr> else st1)
      else (case VideoComponent_startRecording env st of
              (success, st1) \<Rightarrow>
                if success then (startScroll st1)\<lparr>cc_recordButton_recording := True\<rparr> else st1))"

text \<open>The public methods of \<open>VideoTeleprompterApp\<close>; both go through
  \<open>triggerAction('toggleRecording')\<close>.\<close>

definition App_startRecording :: "platform \<Rightarrow> app \<Rightarrow> app" where
  "App_startRecording env st = ControlsComponent_toggleRecording env st"

definition App_stopRecording :: "platform \<Rightarrow> app \<Rightarrow> app" where
  "App_stopRecording env st =
     (if vc_isRecording st then ControlsComponent_toggleRecording env st else st)"

datatype app_event =
    ApiStartRecording
  | ApiStopRecording
  | RecordButtonClick
  | VcDataAvailable Blob
  | VcRecorderStop

fun app_handle :: "platform \<Rightarrow> app_event \<Rightarrow> app \<Rightarrow> app" where
  "app_handle env ApiStartRecording st = App_startRecording env st"
| "app_handle env ApiStopRecording st = App_stopRecording env st"
| "app_handle env RecordButtonClick st = ControlsComponent_toggleRecording env st"
| "app_handle env (VcDataAvailable d) st = VideoComponent_ondataavailable d st"
| "app_handle env VcRecorderStop st = downloadRecording env st"

definition app_run :: "platform \<Rightarrow> app_event list \<Rightarrow> app \<Rightarrow> app" where
  "app_run env evs st = foldl (\<lambda>s e. app_handle env e s) st evs"

text \<open>
  The three constructors on a freshly loaded page (no animation frame pending), with
  the answer of \<open>getUserMedia\<close> to \<open>VideoComponent.init\<close>: a stream becomes the held
  stream, a refusal is logged and alerted.  \<open>ControlsComponent.init\<close> takes the
  \<open>recording\<close> class off the record button.
\<close>

definition new_VideoTeleprompterApp :: "string + MediaStream \<Rightarrow> app \<Rightarrow> app" where
  "new_VideoTeleprompterApp answer page =
     (let st = page\<lparr>vc_stream := None, vc_mediaRecorder := None, vc_recordedChunks := [],
                    vc_isRecording := False, vc_currentCamera := ''user'',
                    sc_isScrolling := False, sc_scrollAnimation := None,
                    cc_recordButton_recording := False, pendingFrames := {},
                    app_effects := [GetUserMedia ''user'']\<rparr>
      in case answer of
           Inr ms \<Rightarrow> st\<lparr>vc_stream := Some ms\<rparr>
         | Inl err \<Rightarrow>
             st\<lparr>app_effects := app_effects st @
                   [ConsoleError err,
                    Alert ''Unable to access camera. Please check your permissions and try again.'']\<rparr>)"

section \<open>The words of a script, as the specification counts them\<close>

text \<open>The maximal runs of characters that are not white space, in order.\<close>

function spec_words :: "string \<Rightarrow> string list" where
  "spec_words [] = []"
| "spec_words (c # cs) =
     (if is_ws c then spec_words cs
      else (c # takeWhile (\<lambda>x. \<not> is_ws x) cs) # spec_words (dropWhile (\<lambda>x. \<not> is_ws x) cs))"
  by pat_completeness auto
termination
  by (relation "measure length") (auto simp: length_dropWhile_le less_Suc_eq_le)

section \<open>Notions the properties are stated with\<close>

text \<open>The order in which \<open>startRecording\<close> probes the recording formats.\<close>

definition mime_preference :: "string list" where
  "mime_preference =
     [''video/webm;codecs=vp9,opus'', ''video/mp4'', ''video/webm;codecs=vp8,opus'',
      ''video/webm'']"

text \<open>The type a recorder works with: the first supported entry of the probe, or the
  platform's own choice when no entry is supported.\<close>

definition used_mimeType :: "platform \<Rightarrow> string" where
  "used_mimeType env =
     (case find (isTypeSupported env) mime_preference of
        Some t \<Rightarrow> t
      | None \<Rightarrow> defaultMimeType env)"

text \<open>One recording session as the page sees it: the click that starts it, the data
  events that arrive while it records, the click that stops it, and the data events
  flushed after that.\<close>

definition session ::
  "string + MediaStream \<Rightarrow> real \<Rightarrow> Blob list \<Rightarrow> real \<Rightarrow> Blob list \<Rightarrow> event list" where
  "session a n1 ds1 n2 ds2 =
     [RecordClick a n1] @ map DataAvailable ds1 @ [RecordClick a n2] @ map DataAvailable ds2"

text \<open>The data an event delivers, the data a run of events delivers, in arrival order,
  and whether an event is a click on the record button.\<close>

definition data_of :: "event \<Rightarrow> Blob list" where
  "data_of e = (case e of DataAvailable d \<Rightarrow> [d] | _ \<Rightarrow> [])"

definition received :: "event list \<Rightarrow> Blob list" where
  "received evs = concat (map data_of evs)"

definition is_RecordClick :: "event \<Rightarrow> bool" where
  "is_RecordClick e = (case e of RecordClick a n \<Rightarrow> True | _ \<Rightarrow> False)"

text \<open>The page loaded again, with the storage a state has left behind.\<close>

definition reload :: "platform \<Rightarrow> string + MediaStream \<Rightarrow> real \<Rightarrow> vt \<Rightarrow> vt \<Rightarrow> vt" where
  "reload env answer now page p =
     init env answer now (new_VideoTeleprompter (page\<lparr>localStorage := localStorage p\<rparr>))"

text \<open>The tracks of the stream the object holds.\<close>

definition held_tracks :: "vt \<Rightarrow> nat set" where
  "held_tracks st = (case stream st of None \<Rightarrow> {} | Some ms \<Rightarrow> set (tracks ms))"

text \<open>The state once \<open>setupCamera\<close>, called with no stream held, has been given a stream.\<close>

definition acquired :: "MediaStream \<Rightarrow> vt \<Rightarrow> vt" where
  "acquired ms st =
     st\<lparr>effects := effects st @ [GetUserMedia (currentCamera st)], stream := Some ms,
        videoPreview_srcObject := Some ms, liveTracks := liveTracks st \<union> set (tracks ms)\<rparr>"

text \<open>
  What holds of the object between any two events: a recording has its recorder;
  the only interval that can be scheduled is the one \<open>scrollInterval\<close> names, and none
  is scheduled unless scrolling; every stored chunk has bytes; every capturing track
  belongs to the held stream.
\<close>

definition vt_inv :: "vt \<Rightarrow> bool" where
  "vt_inv st \<longleftrightarrow>
     (isRecording st \<longrightarrow> mediaRecorder st \<noteq> None) \<and>
     (\<forall>i. timers st i \<noteq> None \<longrightarrow> scrollInterval st = Some i) \<and>
     scrollInterval st \<noteq> Some 0 \<and>
     (\<not> isScrolling st \<longrightarrow> (\<forall>i. timers st i = None)) \<and>
     (\<forall>b \<in> set (recordedChunks st). 0 < blob_size b) \<and>
     liveTracks st \<subseteq> held_tracks st"

text \<open>A style length that is set and lies in a range, or above a bound.\<close>

definition px_between :: "real \<Rightarrow> real \<Rightarrow> real option \<Rightarrow> bool" where
  "px_between lo hi v = (case v of None \<Rightarrow> False | Some x \<Rightarrow> lo \<le> x \<and> x \<le> hi)"

definition px_at_least :: "real \<Rightarrow> real option \<Rightarrow> bool" where
  "px_at_least lo v = (case v of None \<Rightarrow> False | Some x \<Rightarrow> lo \<le> x)"

section \<open>Concrete pages, platforms and gestures\<close>

definition window0 :: viewport where
  "window0 = \<lparr>innerWidth = 1000, innerHeight = 800\<rparr>"

definition narrow_window :: viewport where
  "narrow_window = \<lparr>innerWidth = 320, innerHeight = 568\<rparr>"

definition box0 :: scriptBox where
  "box0 =
     \<lparr>offsetLeft = 10, offsetTop = 20, offsetWidth = 400, offsetHeight = 300,
      style_left = None, style_top = None, style_width = None, style_height = None,
      style_transform = None, class_dragging = True, class_resizing = True\<rparr>"

text \<open>A mouse gesture that drags and resizes (both flags set), and a pinch.\<close>

definition gesture0 :: gesture where
  "gesture0 =
     \<lparr>isDragging = True, isResizing = True, startX = 50, startY = 60,
      startLeft = 10, startTop = 20, startWidth = 400, startHeight = 300,
      lastDistance = None\<rparr>"

definition gesture_pinch :: gesture where
  "gesture_pinch =
     \<lparr>isDragging = False, isResizing = False, startX = 0, startY = 0,
      startLeft = 0, startTop = 0, startWidth = 0, startHeight = 0,
      lastDistance = Some 5\<rparr>"

definition box_initial :: scriptBox where
  "box_initial =
     \<lparr>offsetLeft = 300, offsetTop = 100, offsetWidth = 400, offsetHeight = 300,
      style_left = None, style_top = None, style_width = None, style_height = None,
      style_transform = None, class_dragging = False, class_resizing = False\<rparr>"

definition gesture_idle :: gesture where
  "gesture_idle =
     \<lparr>isDragging = False, isResizing = False, startX = 0, startY = 0,
      startLeft = 0, startTop = 0, startWidth = 0, startHeight = 0,
      lastDistance = None\<rparr>"

text \<open>A page whose script is four words long, at 120 words per minute, with 600
  pixels of overflow and nothing stored.\<close>

definition page0 :: vt where
  "page0 =
     \<lparr>mediaRecorder = None, recordedChunks = [], isRecording = False, isScrolling = False,
      stream = None, currentCamera = ''user'', isTextRotated = False,
      scrollInterval = None, scrollStartTime = None,
      scriptInput_value = ''one two three four'', scriptInput_scrollTop = Num 0,
      scriptInput_scrollHeight = 800, scriptInput_clientHeight = 200,
      scriptInput_fontSize = ''24px'', scriptInput_scrolling = False,
      speedSlider_value = ''120'', speedValue_textContent = ''120'',
      textSizeSlider_value = ''24'', textSizeValue_textContent = ''24'',
      recordButton_recording = False, rotateButton_active = False,
      scriptBox_rotated = False, videoPreview_srcObject = None,
      sbox = box_initial, drag_vars = gesture_idle, the_window = window0,
      liveTracks = {}, timers = Map.empty, lastTimerId = 0,
      localStorage = Missing, effects = []\<rparr>"

text \<open>The same page with a script box that starts empty.\<close>

definition page_blank :: vt where
  "page_blank = page0\<lparr>scriptInput_value := []\<rparr>"

definition cam0 :: MediaStream where
  "cam0 = \<lparr>tracks = [1, 2]\<rparr>"

definition cam1 :: MediaStream where
  "cam1 = \<lparr>tracks = [3, 4]\<rparr>"

definition cam2 :: MediaStream where
  "cam2 = \<lparr>tracks = [5, 6]\<rparr>"

text \<open>A browser that records plain WebM only.\<close>

definition env_webm_only :: platform where
  "env_webm_only =
     \<lparr>windowMediaRecorder = True, isTypeSupported = (\<lambda>t. t = ''video/webm''),
      defaultMimeType = ''video/x-matroska'', userAgent = ''Mozilla/5.0 (X11; Linux x86_64)'',
      windowMSStream = False\<rparr>"

text \<open>A browser that supports none of the probed formats.\<close>

definition env_none :: platform where
  "env_none =
     \<lparr>windowMediaRecorder = True, isTypeSupported = (\<lambda>t. False),
      defaultMimeType = ''video/x-matroska'', userAgent = ''Mozilla/5.0 (X11; Linux x86_64)'',
      windowMSStream = False\<rparr>"

text \<open>The page once the camera has answered.\<close>

definition ready0 :: vt where
  "ready0 = init env_webm_only (Inr cam0) 0 (new_VideoTeleprompter page0)"

text \<open>
  Two clicks on the camera button before the first request is answered: each call of
  \<open>switchCamera\<close> runs up to the \<open>await\<close> in \<open>setupCamera\<close>, then the two requests are
  answered in turn.  \<open>resumed\<close> is the state a call is in once it has resumed.
\<close>

definition resumed :: "string + MediaStream \<Rightarrow> vt \<Rightarrow> vt" where
  "resumed answer st = (case setupCamera_resume answer st of Inl (err, s) \<Rightarrow> s | Inr s \<Rightarrow> s)"

definition switch1_begun :: vt where
  "switch1_begun =
     setupCamera_begin (ready0\<lparr>currentCamera := other_camera (currentCamera ready0)\<rparr>)"

definition switch2_begun :: vt where
  "switch2_begun =
     setupCamera_begin
       (switch1_begun\<lparr>currentCamera := other_camera (currentCamera switch1_begun)\<rparr>)"

definition both_answered :: vt where
  "both_answered = resumed (Inr cam2) (resumed (Inr cam1) switch2_begun)"

text \<open>Preferences a user has set, and the state after the user has emptied the script
  box.\<close>

definition prefs0 :: vt where
  "prefs0 = ready0\<lparr>scriptInput_value := ''good evening'', isTextRotated := True,
                   currentCamera := ''environment'', speedSlider_value := ''200''\<rparr>"

definition prefs_empty :: vt where
  "prefs_empty = ready0\<lparr>scriptInput_value := []\<rparr>"

definition chunkA :: Blob where
  "chunkA = \<lparr>bytes = [1, 2, 3], btype = ''video/webm''\<rparr>"

definition chunkB :: Blob where
  "chunkB = \<lparr>bytes = [4, 5], btype = ''video/webm''\<rparr>"

definition chunk_empty :: Blob where
  "chunk_empty = \<lparr>bytes = [], btype = ''video/webm''\<rparr>"

text \<open>The second class on a fresh page, and after the user has moved the box.\<close>

definition fresh2 :: vt2 where
  "fresh2 =
     \<lparr>scriptInput_value2 = [], scriptInput_fontSize2 = [], speedSlider_value2 = ''120'',
      textSizeSlider_value2 = ''24'', textSizeValue_textContent2 = [],
      scriptBox_style_left = [], scriptBox_style_top = [], scriptBox_style_width = [],
      scriptBox_style_height = [], scriptBox_style_transform = [],
      localStorage2 = Missing\<rparr>"

definition moved2 :: vt2 where
  "moved2 =
     \<lparr>scriptInput_value2 = ''hello world'', scriptInput_fontSize2 = ''32px'',
      speedSlider_value2 = ''200'', textSizeSlider_value2 = ''32'',
      textSizeValue_textContent2 = ''32px'',
      scriptBox_style_left = ''40px'', scriptBox_style_top = ''60px'',
      scriptBox_style_width = [], scriptBox_style_height = ''300px'',
      scriptBox_style_transform = ''none'', localStorage2 = Missing\<rparr>"

text \<open>The component application with a camera stream and nothing recording.\<close>

definition app_idle :: app where
  "app_idle =
     \<lparr>vc_stream = Some cam0, vc_mediaRecorder = None, vc_recordedChunks = [],
      vc_isRecording = False, vc_currentCamera = ''user'', sc_isScrolling = False,
      sc_scrollAnimation = None, sc_class_scrolling = False,
      cc_recordButton_recording = False, pendingFrames = {}, lastFrameId = 0,
      app_effects = []\<rparr>"

section \<open>Word count and scroll duration\<close>

lemma split_ws_not_Nil: "split_ws s \<noteq> []"
  by (induction s rule: split_ws.induct) (auto split: list.splits)

lemma spec_words_dropWhile_ws: "spec_words (dropWhile is_ws s) = spec_words s"
  by (induction s) auto

text \<open>The non-empty pieces of \<open>split\<close> are the words; the first piece and the rest are
  carried along for the induction.\<close>

lemma split_ws_spec_words:
  "filter (\<lambda>word. 0 < length word) (split_ws s) = spec_words s \<and>
   hd (split_ws s) = takeWhile (\<lambda>x. \<not> is_ws x) s \<and>
   filter (\<lambda>word. 0 < length word) (tl (split_ws s)) =
     spec_words (dropWhile (\<lambda>x. \<not> is_ws x) s)"
proof (induction s rule: split_ws.induct)
  case 1
  show ?case by simp
next
  case (2 c cs)
  show ?case
  proof (cases "is_ws c")
    case True
    with 2 show ?thesis by (simp add: spec_words_dropWhile_ws)
  next
    case False
    obtain t ts where ts: "split_ws cs = t # ts"
      using split_ws_not_Nil [of cs] by (cases "split_ws cs") auto
    with 2 False show ?thesis by simp
  qed
qed

lemma takeWhile_append_ws:
  "\<forall>c \<in> set w. is_ws c \<Longrightarrow>
   takeWhile (\<lambda>x. \<not> is_ws x) (cs @ w) = takeWhile (\<lambda>x. \<not> is_ws x) cs"
proof (induction cs)
  case Nil
  then show ?case by (cases w) auto
next
  case (Cons a cs)
  then show ?case by simp
qed

lemma dropWhile_append_ws:
  "\<forall>c \<in> set w. is_ws c \<Longrightarrow>
   dropWhile (\<lambda>x. \<not> is_ws x) (cs @ w) = dropWhile (\<lambda>x. \<not> is_ws x) cs @ w"
proof (induction cs)
  case Nil
  then show ?case by (cases w) auto
next
  case (Cons a cs)
  then show ?case by simp
qed

lemma spec_words_all_ws: "\<forall>c \<in> set w. is_ws c \<Longrightarrow> spec_words w = []"
  by (induction w) auto

lemma spec_words_append_ws:
  "\<forall>c \<in> set w. is_ws c \<Longrightarrow> spec_words (s @ w) = spec_words s"
  by (induction s rule: spec_words.induct)
     (auto simp: spec_words_all_ws takeWhile_append_ws dropWhile_append_ws)

lemma spec_words_trim: "spec_words (trim s) = spec_words s"
proof -
  let ?x = "dropWhile is_ws s"
  have "?x = trim s @ rev (takeWhile is_ws (rev ?x))"
    unfolding trim_def
    by (metis rev_append rev_rev_ident takeWhile_dropWhile_id)
  moreover have "\<forall>c \<in> set (rev (takeWhile is_ws (rev ?x))). is_ws c"
    by (auto dest: set_takeWhileD)
  ultimately have "spec_words ?x = spec_words (trim s)"
    using spec_words_append_ws by metis
  then show ?thesis by (simp add: spec_words_dropWhile_ws)
qed

lemma wordCount_trim: "wordCount (trim s) = length (spec_words s)"
  unfolding wordCount_def using split_ws_spec_words [of "trim s"]
  by (simp add: spec_words_trim)

lemma trim_Nil_spec_words: "trim s = [] \<Longrightarrow> spec_words s = []"
  using spec_words_trim [of s] by simp

lemma scroll_durationMs_pos:
  "0 < s \<Longrightarrow> scroll_durationMs w (Num s) = Num (real w / s / 10 * 60000)"
  by (simp add: scroll_durationMs_def)

lemma parseInt_120: "parseInt ''120'' = Num 120"
  by (simp add: parseInt_def digit_val_def is_ws_def)

lemma spec_words_four: "spec_words ''one two three four'' = [''one'', ''two'', ''three'', ''four'']"
  by (simp add: is_ws_def)

text \<open>
  C1 (as amended).  When scrolling starts on a script of \<open>w > 0\<close> words at a speed
  \<open>s > 0\<close>, the duration is \<open>w / s / 10 * 60000\<close> milliseconds, which is positive, and it
  is the duration the scheduled scroll job carries; for the four words
  \<open>one two three four\<close> at 120 words per minute that is 200 ms.
\<close>

theorem scroll_duration_formula:
  assumes "\<not> isScrolling st"
    and "w = length (spec_words (scriptInput_value st))" and "0 < w"
    and "parseInt (speedSlider_value st) = Num s" and "0 < s"
  shows "scroll_durationMs (wordCount (trim (scriptInput_value st)))
           (parseInt (speedSlider_value st)) = Num (real w / s / 10 * 60000)
       \<and> 0 < real w / s / 10 * 60000
       \<and> (0 < scriptInput_scrollHeight st - scriptInput_clientHeight st \<longrightarrow>
            timers (startScrolling now st) (Suc (lastTimerId st)) =
              Some \<lparr>durationMs = Num (real w / s / 10 * 60000),
                    maxScroll = scriptInput_scrollHeight st - scriptInput_clientHeight st\<rparr>)
       \<and> scroll_durationMs (wordCount (trim ''one two three four'')) (parseInt ''120'') = Num 200"
proof -
  have d: "scroll_durationMs (wordCount (trim (scriptInput_value st)))
             (parseInt (speedSlider_value st)) = Num (real w / s / 10 * 60000)"
    using assms by (simp add: wordCount_trim scroll_durationMs_pos)
  have p: "0 < real w / s / 10 * 60000"
    using assms by simp
  have ne: "trim (scriptInput_value st) \<noteq> []"
    using assms trim_Nil_spec_words [of "scriptInput_value st"] by auto
  have j: "0 < scriptInput_scrollHeight st - scriptInput_clientHeight st \<longrightarrow>
            timers (startScrolling now st) (Suc (lastTimerId st)) =
              Some \<lparr>durationMs = Num (real w / s / 10 * 60000),
                    maxScroll = scriptInput_scrollHeight st - scriptInput_clientHeight st\<rparr>"
    using assms(1) ne d by (simp add: startScrolling_def Let_def)
  have e: "scroll_durationMs (wordCount (trim ''one two three four'')) (parseInt ''120'') = Num 200"
    by (simp add: wordCount_trim is_ws_def parseInt_120 scroll_durationMs_def)
  from d p j e show ?thesis by blast
qed

theorem scroll_duration_formula_witness:
  "\<not> isScrolling (new_VideoTeleprompter page0)
   \<and> length (spec_words (scriptInput_value (new_VideoTeleprompter page0))) = 4
   \<and> parseInt (speedSlider_value (new_VideoTeleprompter page0)) = Num 120
   \<and> scroll_durationMs (wordCount (trim (scriptInput_value (new_VideoTeleprompter page0))))
        (parseInt (speedSlider_value (new_VideoTeleprompter page0))) = Num 200
   \<and> timers (startScrolling 0 (new_VideoTeleprompter page0)) 1 =
        Some \<lparr>durationMs = Num 200, maxScroll = 600\<rparr>"
  using scroll_duration_formula [of "new_VideoTeleprompter page0" 4 120 0]
  by (simp add: new_VideoTeleprompter_def page0_def is_ws_def parseInt_120)

text \<open>The duration of the four-word script at 120 words per minute is not 2000 ms.\<close>

theorem scroll_duration_example_counterexample:
  "scroll_durationMs (wordCount (trim ''one two three four'')) (parseInt ''120'') \<noteq> Num 2000"
  by (simp add: wordCount_trim is_ws_def parseInt_120 scroll_durationMs_def)

section \<open>Running events\<close>

lemma run_Nil [simp]: "run env [] st = st"
  by (simp add: run_def)

lemma run_Cons [simp]: "run env (e # evs) st = run env evs (handle env e st)"
  by (simp add: run_def)

lemma run_append: "run env (xs @ ys) st = run env ys (run env xs st)"
  by (simp add: run_def)

lemma run_data:
  "run env (map DataAvailable ds) st =
     st\<lparr>recordedChunks := recordedChunks st @ filter (\<lambda>d. 0 < blob_size d) ds\<rparr>"
  by (induction ds arbitrary: st) (simp_all add: ondataavailable_def)

section \<open>Scroll offsets\<close>

lemma spec_words_Nil_all_ws: "spec_words s = [] \<Longrightarrow> \<forall>c \<in> set s. is_ws c"
proof (induction s)
  case Nil
  show ?case by simp
next
  case (Cons c cs)
  show ?case
  proof (cases "is_ws c")
    case True
    with Cons show ?thesis by simp
  next
    case False
    with Cons.prems show ?thesis by simp
  qed
qed

lemma trim_nonempty_words: "trim s \<noteq> [] \<Longrightarrow> 0 < wordCount (trim s)"
proof -
  assume ne: "trim s \<noteq> []"
  have "spec_words s \<noteq> []"
  proof
    assume "spec_words s = []"
    then have "\<forall>c \<in> set s. is_ws c" by (rule spec_words_Nil_all_ws)
    then have "trim s = []" by (auto simp: trim_def dest: set_dropWhileD)
    with ne show False by simp
  qed
  then show ?thesis by (simp add: wordCount_trim)
qed

lemma scrollTick_done:
  assumes "timers st i = Some job" "scrollInterval st = Some i" "scrollStartTime st = Some t0"
    "durationMs job = Num d" "0 < d" "d \<le> t - t0"
  shows "scriptInput_scrollTop (scrollTick i t st) = Num (maxScroll job)"
    and "timers (scrollTick i t st) i = None"
  using assms by (simp_all add: scrollTick_def Let_def clearInterval_def)

lemma scrollTick_step:
  assumes "timers st i = Some job" "scrollInterval st = Some i" "scrollStartTime st = Some t0"
    "durationMs job = Num d" "0 < d" "t - t0 < d"
  shows "scriptInput_scrollTop (scrollTick i t st) = Num (maxScroll job * ((t - t0) / d))"
    and "timers (scrollTick i t st) = timers st"
    and "scrollInterval (scrollTick i t st) = scrollInterval st"
    and "scrollStartTime (scrollTick i t st) = scrollStartTime st"
  using assms by (simp_all add: scrollTick_def Let_def)

text \<open>The writes of a job whose ticks come at times \<open>ts\<close>, none before \<open>lo\<close>.\<close>

lemma scroll_writes_run:
  assumes job: "durationMs job = Num d" "0 < d" "0 < maxScroll job"
  shows "timers st i = Some job \<Longrightarrow> scrollInterval st = Some i \<Longrightarrow>
         scrollStartTime st = Some t0 \<Longrightarrow> sorted ts \<Longrightarrow> \<forall>t \<in> set ts. lo \<le> t \<Longrightarrow> t0 \<le> lo \<Longrightarrow>
         \<exists>vs. scroll_writes i ts st = map Num vs \<and> sorted vs \<and>
              (\<forall>v \<in> set vs. min (maxScroll job) (maxScroll job * ((lo - t0) / d)) \<le> v \<and>
                            v \<le> maxScroll job) \<and>
              ((\<exists>t \<in> set ts. d \<le> t - t0) \<longrightarrow> vs \<noteq> [] \<and> last vs = maxScroll job)"
proof (induction ts arbitrary: st lo)
  case Nil
  then show ?case by simp
next
  case (Cons t ts)
  let ?m = "maxScroll job"
  have lo_t: "lo \<le> t" using Cons.prems by simp
  have mono: "?m * ((lo - t0) / d) \<le> ?m * ((t - t0) / d)"
    using job lo_t by (simp add: divide_right_mono)
  show ?case
  proof (cases "d \<le> t - t0")
    case True
    have w: "scroll_writes i (t # ts) st = [Num ?m]"
      using Cons.prems(1-3) job True scrollTick_done [of st i job t0 d t]
      by (cases ts) simp_all
    show ?thesis
      unfolding w by (rule exI [of _ "[?m]"]) simp
  next
    case False
    then have lt: "t - t0 < d" by simp
    let ?st = "scrollTick i t st"
    note step = scrollTick_step [OF Cons.prems(1-3) job(1,2) lt]
    have "\<exists>vs. scroll_writes i ts ?st = map Num vs \<and> sorted vs \<and>
              (\<forall>v \<in> set vs. min ?m (?m * ((t - t0) / d)) \<le> v \<and> v \<le> ?m) \<and>
              ((\<exists>t \<in> set ts. d \<le> t - t0) \<longrightarrow> vs \<noteq> [] \<and> last vs = ?m)"
      using Cons.prems step lo_t
      by (intro Cons.IH) auto
    then obtain vs where vs: "scroll_writes i ts ?st = map Num vs" "sorted vs"
      "\<forall>v \<in> set vs. min ?m (?m * ((t - t0) / d)) \<le> v \<and> v \<le> ?m"
      "(\<exists>t \<in> set ts. d \<le> t - t0) \<longrightarrow> vs \<noteq> [] \<and> last vs = ?m"
      by blast
    have p1: "(t - t0) / d < 1" using lt job by simp
    have cur_le: "?m * ((t - t0) / d) \<le> ?m"
    proof -
      have "?m * ((t - t0) / d) \<le> ?m * 1"
        using p1 job(3) by (intro mult_left_mono) simp_all
      then show ?thesis by simp
    qed
    have w: "scroll_writes i (t # ts) st = map Num ((?m * ((t - t0) / d)) # vs)"
      using Cons.prems(1) step(1) vs(1) by simp
    have s: "sorted ((?m * ((t - t0) / d)) # vs)"
      using vs(2,3) cur_le by (auto simp: min_def split: if_splits)
    have b: "\<forall>v \<in> set ((?m * ((t - t0) / d)) # vs).
               min ?m (?m * ((lo - t0) / d)) \<le> v \<and> v \<le> ?m"
      using vs(3) cur_le mono by (auto simp: min_def split: if_splits)
    have l: "(\<exists>t' \<in> set (t # ts). d \<le> t' - t0) \<longrightarrow>
               (?m * ((t - t0) / d)) # vs \<noteq> [] \<and> last ((?m * ((t - t0) / d)) # vs) = ?m"
      using vs(4) lt by auto
    show ?thesis
      using w s b l by blast
  qed
qed

text \<open>
  C8.  A scroll job started at time \<open>now\<close> with a positive speed, ticked at
  non-decreasing times from \<open>now\<close> on, writes offsets between 0 and the maximal offset,
  in non-decreasing order; once a tick finds the duration elapsed the job writes
  exactly the maximal offset, and that is its last write.
\<close>

theorem scroll_offsets_bounded_monotone:
  assumes "\<not> isScrolling st" and "trim (scriptInput_value st) \<noteq> []"
    and "parseInt (speedSlider_value st) = Num s" and "0 < s"
    and "0 < scriptInput_scrollHeight st - scriptInput_clientHeight st"
    and "sorted ts" and "\<forall>t \<in> set ts. now \<le> t"
  shows "\<exists>vs. scroll_writes (Suc (lastTimerId st)) ts (startScrolling now st) = map Num vs
            \<and> sorted vs
            \<and> (\<forall>v \<in> set vs. 0 \<le> v \<and> v \<le> scriptInput_scrollHeight st - scriptInput_clientHeight st)
            \<and> ((\<exists>t \<in> set ts. real (wordCount (trim (scriptInput_value st))) / s / 10 * 60000 \<le> t - now)
                 \<longrightarrow> vs \<noteq> [] \<and>
                     last vs = scriptInput_scrollHeight st - scriptInput_clientHeight st)"
proof -
  let ?m = "scriptInput_scrollHeight st - scriptInput_clientHeight st"
  let ?d = "real (wordCount (trim (scriptInput_value st))) / s / 10 * 60000"
  let ?job = "\<lparr>durationMs = Num ?d, maxScroll = ?m\<rparr>"
  let ?i = "Suc (lastTimerId st)"
  let ?st = "startScrolling now st"
  have wc: "0 < wordCount (trim (scriptInput_value st))"
    using assms(2) by (rule trim_nonempty_words)
  have dpos: "0 < ?d" using wc assms(4) by simp
  have dur: "scroll_durationMs (wordCount (trim (scriptInput_value st)))
               (parseInt (speedSlider_value st)) = Num ?d"
    using assms(3,4) by (simp add: scroll_durationMs_pos)
  have t: "timers ?st ?i = Some ?job"
    using assms(1,2,5) dur by (simp add: startScrolling_def Let_def)
  have si: "scrollInterval ?st = Some ?i"
    using assms(1,2,5) by (simp add: startScrolling_def Let_def)
  have ss: "scrollStartTime ?st = Some now"
    using assms(1,2,5) by (simp add: startScrolling_def Let_def)
  have j1: "durationMs ?job = Num ?d" by simp
  have j3: "0 < maxScroll ?job" using assms(5) by simp
  have le: "now \<le> now" by simp
  from scroll_writes_run [OF j1 dpos j3 t si ss assms(6) assms(7) le]
  obtain vs where vs: "scroll_writes ?i ts ?st = map Num vs" "sorted vs"
      "\<forall>v \<in> set vs. min (maxScroll ?job) (maxScroll ?job * ((now - now) / ?d)) \<le> v \<and>
                        v \<le> maxScroll ?job"
      "(\<exists>t \<in> set ts. ?d \<le> t - now) \<longrightarrow> vs \<noteq> [] \<and> last vs = maxScroll ?job"
    by blast
  have b: "\<forall>v \<in> set vs. 0 \<le> v \<and> v \<le> ?m"
    using vs(3) assms(5) by (simp add: min_def)
  have l: "(\<exists>t \<in> set ts. ?d \<le> t - now) \<longrightarrow> vs \<noteq> [] \<and> last vs = ?m"
    using vs(4) by simp
  from vs(1,2) b l show ?thesis by blast
qed

theorem scroll_offsets_bounded_monotone_witness:
  "\<not> isScrolling (new_VideoTeleprompter page0)
   \<and> trim (scriptInput_value (new_VideoTeleprompter page0)) \<noteq> []
   \<and> parseInt (speedSlider_value (new_VideoTeleprompter page0)) = Num 120
   \<and> sorted [16, 100, 208 :: real]
   \<and> (\<exists>vs. scroll_writes 1 [16, 100, 208] (startScrolling 0 (new_VideoTeleprompter page0)) = map Num vs
          \<and> sorted vs \<and> (\<forall>v \<in> set vs. 0 \<le> v \<and> v \<le> 600) \<and> vs \<noteq> [] \<and> last vs = 600)"
  using scroll_offsets_bounded_monotone [of "new_VideoTeleprompter page0" 120 "[16, 100, 208]" 0]
  by (simp add: new_VideoTeleprompter_def page0_def parseInt_120 trim_def is_ws_def wordCount_def)

lemma scroll_writes_example:
  "scroll_writes 1 [16, 100, 208] (startScrolling 0 (new_VideoTeleprompter page0)) = [Num 48, Num 300, Num 600]"
  by (simp add: new_VideoTeleprompter_def page0_def parseInt_120 trim_def is_ws_def wordCount_def
     startScrolling_def Let_def scrollTick_def scroll_durationMs_def clearInterval_def)


section \<open>What holds between events\<close>

lemma stop_tracks_fold:
  "foldl (\<lambda>s t. stop_track t s) st ts =
     st\<lparr>liveTracks := liveTracks st - set ts, effects := effects st @ map TrackStop ts\<rparr>"
proof (induction ts arbitrary: st)
  case Nil
  show ?case by simp
next
  case (Cons t ts)
  have "liveTracks st - {t} - set ts = liveTracks st - insert t (set ts)" by auto
  then show ?case
    unfolding foldl_Cons Cons.IH by (simp add: stop_track_def)
qed

lemma stop_all_tracks_eq:
  "stop_all_tracks ms st =
     st\<lparr>liveTracks := liveTracks st - set (tracks ms),
        effects := effects st @ map TrackStop (tracks ms)\<rparr>"
  by (simp add: stop_all_tracks_def stop_tracks_fold)

lemma inv_new: "vt_inv (new_VideoTeleprompter page)"
  by (simp add: vt_inv_def new_VideoTeleprompter_def held_tracks_def)

lemma inv_startScrolling: "vt_inv st \<Longrightarrow> vt_inv (startScrolling now st)"
  by (auto simp: vt_inv_def startScrolling_def Let_def held_tracks_def)

lemma inv_stopScrolling: "vt_inv st \<Longrightarrow> vt_inv (stopScrolling st)"
  by (auto simp: vt_inv_def stopScrolling_def Let_def held_tracks_def clearInterval_def
      split: option.splits)

lemma inv_scrollTick: "vt_inv st \<Longrightarrow> vt_inv (scrollTick i now st)"
  by (auto simp: vt_inv_def scrollTick_def Let_def held_tracks_def clearInterval_def
      split: option.splits)

lemma inv_updateSpeedDisplay: "vt_inv st \<Longrightarrow> vt_inv (updateSpeedDisplay now st)"
proof -
  assume i: "vt_inv st"
  have "vt_inv (st\<lparr>speedValue_textContent := speedSlider_value st\<rparr>)"
    using i by (simp add: vt_inv_def held_tracks_def)
  then show ?thesis
    by (simp add: updateSpeedDisplay_def Let_def inv_startScrolling inv_stopScrolling)
qed

lemma inv_updateTextSizeDisplay: "vt_inv st \<Longrightarrow> vt_inv (updateTextSizeDisplay st)"
  by (simp add: vt_inv_def updateTextSizeDisplay_def held_tracks_def)

lemma inv_setupCamera:
  "vt_inv st \<Longrightarrow> vt_inv (case setupCamera answer st of Inl (e, s) \<Rightarrow> s | Inr s \<Rightarrow> s)"
  by (auto simp: vt_inv_def setupCamera_def setupCamera_begin_def setupCamera_resume_def
      stop_all_tracks_eq Let_def held_tracks_def split: option.splits sum.splits)

lemma inv_effects: "vt_inv (st\<lparr>effects := es\<rparr>) = vt_inv st"
  by (simp add: vt_inv_def held_tracks_def)

lemma inv_currentCamera: "vt_inv (st\<lparr>currentCamera := c\<rparr>) = vt_inv st"
  by (simp add: vt_inv_def held_tracks_def)

lemma inv_switchCamera: "vt_inv st \<Longrightarrow> vt_inv (switchCamera answer st)"
  using inv_setupCamera [of "st\<lparr>currentCamera := other_camera (currentCamera st)\<rparr>" answer]
  by (auto simp: switchCamera_def inv_effects inv_currentCamera split: sum.splits)

lemma inv_saveRecording: "vt_inv st \<Longrightarrow> vt_inv (saveRecording env st)"
  by (auto simp: saveRecording_def Let_def inv_effects split: prod.splits)

lemma inv_ondataavailable: "vt_inv st \<Longrightarrow> vt_inv (ondataavailable d st)"
  by (auto simp: vt_inv_def ondataavailable_def held_tracks_def)

lemma inv_stopRecording: "vt_inv st \<Longrightarrow> vt_inv (stopRecording st)"
proof -
  assume i: "vt_inv st"
  have "\<And>r. vt_inv (st\<lparr>mediaRecorder := Some r, isRecording := False,
                          recordButton_recording := False\<rparr>)"
    using i by (simp add: vt_inv_def held_tracks_def)
  then show ?thesis
    using i by (simp add: stopRecording_def inv_stopScrolling split: option.splits)
qed

lemma inv_catch: "vt_inv st \<Longrightarrow> vt_inv (startRecording_catch msg st)"
  by (simp add: startRecording_catch_def inv_effects)

lemma inv_startRecording: "vt_inv st \<Longrightarrow> vt_inv (startRecording env answer now st)"
proof -
  assume i: "vt_inv st"
  have a: "\<And>s. vt_inv s \<Longrightarrow> vt_inv (s\<lparr>recordedChunks := []\<rparr>)"
    by (simp add: vt_inv_def held_tracks_def)
  have b: "\<And>s r. vt_inv s \<Longrightarrow> vt_inv (s\<lparr>mediaRecorder := Some r\<rparr>)"
    by (simp add: vt_inv_def held_tracks_def)
  have c: "\<And>s r. vt_inv s \<Longrightarrow>
             vt_inv (s\<lparr>mediaRecorder := Some r, isRecording := True,
                       recordButton_recording := True\<rparr>)"
    by (simp add: vt_inv_def held_tracks_def)
  have d: "\<And>s r r1. vt_inv s \<Longrightarrow>
             vt_inv (s\<lparr>recordedChunks := [], mediaRecorder := Some r, mediaRecorder := Some r1,
                       isRecording := True, recordButton_recording := True\<rparr>)"
    by (simp add: vt_inv_def held_tracks_def)
  show ?thesis
    using i inv_setupCamera [OF i, of answer]
    by (auto simp: startRecording_def Let_def inv_catch inv_startScrolling a b c d
        split: sum.splits option.splits prod.splits)
qed

lemma inv_toggleRecording: "vt_inv st \<Longrightarrow> vt_inv (toggleRecording env answer now st)"
  by (simp add: toggleRecording_def inv_stopRecording inv_startRecording)

lemma inv_saveSettings: "vt_inv st \<Longrightarrow> vt_inv (saveSettings st)"
  by (simp add: vt_inv_def saveSettings_def held_tracks_def)

lemma inv_loadSettings: "vt_inv st \<Longrightarrow> vt_inv (loadSettings st)"
  by (auto simp: vt_inv_def loadSettings_def Let_def updateTextSizeDisplay_def held_tracks_def
      split: stored.splits)

lemma inv_checkCompatibility: "vt_inv st \<Longrightarrow> vt_inv (checkCompatibility env st)"
  by (simp add: checkCompatibility_def Let_def inv_effects)

lemma inv_init: "vt_inv st \<Longrightarrow> vt_inv (init env answer now st)"
  using inv_setupCamera
    [of "updateTextSizeDisplay (updateSpeedDisplay now (loadSettings (checkCompatibility env st)))"
        answer]
  by (auto simp: init_def inv_effects inv_loadSettings inv_updateSpeedDisplay
      inv_updateTextSizeDisplay inv_checkCompatibility split: sum.splits)

lemma inv_toggleTextRotation: "vt_inv st \<Longrightarrow> vt_inv (toggleTextRotation st)"
  by (simp add: vt_inv_def held_tracks_def toggleTextRotation_def saveSettings_def Let_def)

lemma inv_endDrag: "vt_inv st \<Longrightarrow> vt_inv (endDrag st)"
  by (simp add: vt_inv_def held_tracks_def endDrag_def saveSettings_def)

lemma inv_endResize: "vt_inv st \<Longrightarrow> vt_inv (endResize st)"
  by (simp add: vt_inv_def held_tracks_def endResize_def saveSettings_def)

lemma inv_gesture: "vt_inv (st\<lparr>drag_vars := g, sbox := b\<rparr>) = vt_inv st"
  by (simp add: vt_inv_def held_tracks_def)

lemma inv_handle: "vt_inv st \<Longrightarrow> vt_inv (handle env e st)"
proof (cases e)
  case (SpeedInput v now)
  assume i: "vt_inv st"
  have "vt_inv (st\<lparr>speedSlider_value := v\<rparr>)"
    using i by (simp add: vt_inv_def held_tracks_def)
  then show ?thesis using SpeedInput by (simp add: inv_updateSpeedDisplay)
next
  case (TextSizeInput v)
  assume i: "vt_inv st"
  have "vt_inv (st\<lparr>textSizeSlider_value := v\<rparr>)"
    using i by (simp add: vt_inv_def held_tracks_def)
  then show ?thesis using TextSizeInput by (simp add: inv_updateTextSizeDisplay)
next
  case (ScriptInput v)
  assume i: "vt_inv st"
  have "vt_inv (st\<lparr>scriptInput_value := v\<rparr>)"
    using i by (simp add: vt_inv_def held_tracks_def)
  then show ?thesis using ScriptInput by (simp add: inv_saveSettings)
next
  case (WindowResize w h)
  assume i: "vt_inv st"
  have "vt_inv (st\<lparr>the_window := \<lparr>innerWidth = w, innerHeight = h\<rparr>\<rparr>)"
    using i by (simp add: vt_inv_def held_tracks_def)
  then show ?thesis using WindowResize by (simp add: inv_saveSettings)
next
  case (Layout sh ch)
  assume i: "vt_inv st"
  then show ?thesis using Layout by (simp add: vt_inv_def held_tracks_def)
next
  case (BoxLayout l t w h)
  assume i: "vt_inv st"
  then show ?thesis using BoxLayout by (simp add: vt_inv_def held_tracks_def)
next
  case (HeaderMouseDown onHandle x y)
  assume i: "vt_inv st"
  then show ?thesis using HeaderMouseDown by (simp add: inv_gesture split: prod.splits)
next
  case (HandleMouseDown x y)
  assume i: "vt_inv st"
  then show ?thesis using HandleMouseDown by (simp add: inv_gesture split: prod.splits)
next
  case (MouseMove x y)
  assume i: "vt_inv st"
  then show ?thesis using MouseMove by (simp add: vt_inv_def held_tracks_def)
next
  case MouseUp
  assume i: "vt_inv st"
  then show ?thesis using MouseUp by (simp add: inv_endDrag inv_endResize)
next
  case (HeaderTouchStart onHandle touches)
  assume i: "vt_inv st"
  then show ?thesis using HeaderTouchStart
    by (simp add: inv_gesture split: prod.splits list.splits)
next
  case (HandleTouchStart touches)
  assume i: "vt_inv st"
  then show ?thesis using HandleTouchStart
    by (simp add: inv_gesture split: prod.splits list.splits)
next
  case (TouchMove touches)
  assume i: "vt_inv st"
  then show ?thesis using TouchMove by (simp add: inv_gesture split: prod.splits)
next
  case TouchEnd
  assume i: "vt_inv st"
  then have "vt_inv (endResize (endDrag st))"
    by (simp add: inv_endDrag inv_endResize)
  then show ?thesis using TouchEnd by (simp add: Let_def vt_inv_def held_tracks_def)
qed (simp_all add: inv_toggleRecording inv_switchCamera inv_saveSettings inv_ondataavailable
       onstop_def inv_saveRecording inv_scrollTick inv_toggleTextRotation)

lemma inv_run: "vt_inv st \<Longrightarrow> vt_inv (run env evs st)"
  by (induction evs arbitrary: st) (simp_all add: inv_handle)

lemma inv_reachable: "vt_inv (run env evs (init env answer now (new_VideoTeleprompter page)))"
  by (simp add: inv_run inv_init inv_new)

section \<open>Stopping a recording\<close>

lemma ready0_eq:
  "ready0 = (new_VideoTeleprompter page0)
     \<lparr>textSizeValue_textContent := ''24'', scriptInput_fontSize := ''24px'',
      effects := [GetUserMedia ''user''], stream := Some cam0,
      videoPreview_srcObject := Some cam0, liveTracks := {1, 2}\<rparr>"
  by (simp add: ready0_def init_def checkCompatibility_def env_webm_only_def loadSettings_def
      updateSpeedDisplay_def updateTextSizeDisplay_def setupCamera_def setupCamera_begin_def
      setupCamera_resume_def new_VideoTeleprompter_def page0_def cam0_def Let_def)

text \<open>
  C7.  In every state the page can reach, if a recording is on then stopping it
  succeeds: the recorder is stopped and the state is idle, scrolling is off, no
  interval timer is left scheduled, the handle of the interval is null and the
  scroll offset is 0; and the record button does exactly that.
\<close>

theorem stop_recording_stops_autoscroll:
  assumes "st = run env evs (init env answer now (new_VideoTeleprompter page))"
    and "isRecording st"
  shows "\<not> isRecording (stopRecording st)
       \<and> (\<exists>r. mediaRecorder (stopRecording st) = Some r \<and> rec_state r = Inactive)
       \<and> \<not> isScrolling (stopRecording st)
       \<and> timers (stopRecording st) = Map.empty
       \<and> scrollInterval (stopRecording st) = None
       \<and> scriptInput_scrollTop (stopRecording st) = Num 0
       \<and> handle env (RecordClick answer' now') st = stopRecording st"
proof -
  have i: "vt_inv st" unfolding assms(1) by (rule inv_reachable)
  from i assms(2) obtain r where r: "mediaRecorder st = Some r"
    by (auto simp: vt_inv_def)
  have t: "\<forall>j. timers st j \<noteq> None \<longrightarrow> scrollInterval st = Some j"
    and z: "scrollInterval st \<noteq> Some 0"
    using i by (simp_all add: vt_inv_def)
  have ts: "timers (stopRecording st) =
              (case scrollInterval st of None \<Rightarrow> timers st | Some k \<Rightarrow> (timers st)(k := None))"
    using r assms(2) z
    by (auto simp: stopRecording_def stopScrolling_def clearInterval_def Let_def
        split: option.splits)
  have e: "timers (stopRecording st) j = None" for j
  proof (cases "timers st j")
    case None
    then show ?thesis unfolding ts by (simp split: option.splits)
  next
    case (Some job)
    then have "scrollInterval st = Some j" using t by simp
    then show ?thesis unfolding ts by simp
  qed
  have "timers (stopRecording st) = Map.empty"
    by (rule ext) (simp add: e)
  moreover have "scrollInterval (stopRecording st) = None"
    using r assms(2) z
    by (auto simp: stopRecording_def stopScrolling_def clearInterval_def Let_def
        split: option.splits)
  moreover have "\<not> isRecording (stopRecording st)"
    "\<exists>r. mediaRecorder (stopRecording st) = Some r \<and> rec_state r = Inactive"
    "\<not> isScrolling (stopRecording st)"
    "scriptInput_scrollTop (stopRecording st) = Num 0"
    using r assms(2)
    by (auto simp: stopRecording_def stopScrolling_def clearInterval_def Let_def mr_stop_def
        split: option.splits)
  moreover have "handle env (RecordClick answer' now') st = stopRecording st"
    using assms(2) by (simp add: toggleRecording_def)
  ultimately show ?thesis by blast
qed

lemma recording0:
  "run env_webm_only [RecordClick (Inl ''unused'') 5] ready0 =
     ready0\<lparr>recordedChunks := [],
            mediaRecorder := Some \<lparr>rec_stream = cam0, mimeType = ''video/webm'',
                                   rec_state = RecordingState, timeslice = Some 1000\<rparr>,
            isRecording := True, recordButton_recording := True,
            isScrolling := True, scriptInput_scrolling := True, scriptInput_scrollTop := Num 0,
            timers := [1 \<mapsto> \<lparr>durationMs = Num 200, maxScroll = 600\<rparr>],
            lastTimerId := 1, scrollInterval := Some 1, scrollStartTime := Some 5\<rparr>"
  by (simp add: ready0_eq toggleRecording_def startRecording_def Let_def choose_mimeType_def
      new_MediaRecorder_def mr_start_def env_webm_only_def startScrolling_def
      new_VideoTeleprompter_def page0_def parseInt_120 trim_def is_ws_def wordCount_def
      scroll_durationMs_def)

theorem stop_recording_stops_autoscroll_witness:
  "isRecording (run env_webm_only [RecordClick (Inl ''unused'') 5] ready0)
   \<and> timers (run env_webm_only [RecordClick (Inl ''unused'') 5] ready0) 1 \<noteq> None
   \<and> \<not> isRecording (stopRecording (run env_webm_only [RecordClick (Inl ''unused'') 5] ready0))
   \<and> timers (stopRecording (run env_webm_only [RecordClick (Inl ''unused'') 5] ready0)) = Map.empty
   \<and> scrollInterval (stopRecording (run env_webm_only [RecordClick (Inl ''unused'') 5] ready0)) = None
   \<and> scriptInput_scrollTop (stopRecording (run env_webm_only [RecordClick (Inl ''unused'') 5] ready0))
       = Num 0"
proof -
  let ?st = "run env_webm_only [RecordClick (Inl ''unused'') 5] ready0"
  have h1: "?st = run env_webm_only [RecordClick (Inl ''unused'') 5]
                    (init env_webm_only (Inr cam0) 0 (new_VideoTeleprompter page0))"
    by (simp only: ready0_def)
  have h2: "isRecording ?st"
    unfolding recording0 by simp
  have h3: "timers ?st 1 \<noteq> None"
    unfolding recording0 by simp
  from stop_recording_stops_autoscroll [OF h1 h2] h2 h3 show ?thesis
    by blast
qed


section \<open>A recording session\<close>

lemma choose_mimeType_find:
  "choose_mimeType env =
     (case find (isTypeSupported env) mime_preference of Some t \<Rightarrow> t | None \<Rightarrow> [])"
  by (simp add: choose_mimeType_def mime_preference_def)

lemma choose_mimeType_supported:
  "choose_mimeType env \<noteq> [] \<Longrightarrow> isTypeSupported env (choose_mimeType env)"
  by (simp add: choose_mimeType_def split: if_splits)

lemma find_preference_nonempty: "find P mime_preference = Some t \<Longrightarrow> t \<noteq> []"
  by (auto simp: mime_preference_def split: if_splits)

lemma used_mimeType_choose:
  "(if choose_mimeType env = [] then defaultMimeType env else choose_mimeType env) =
     used_mimeType env"
  using find_preference_nonempty [of "isTypeSupported env"]
  by (auto simp: choose_mimeType_find used_mimeType_def split: option.splits)

lemma startRecording_ok:
  assumes "stream st = Some ms" and "windowMediaRecorder env"
  shows "startRecording env answer now st =
           startScrolling now
             (st\<lparr>recordedChunks := [],
                 mediaRecorder := Some \<lparr>rec_stream = ms, mimeType = used_mimeType env,
                                        rec_state = RecordingState, timeslice = Some 1000\<rparr>,
                 isRecording := True, recordButton_recording := True\<rparr>)"
proof (cases "choose_mimeType env = []")
  case True
  then have "used_mimeType env = defaultMimeType env"
    using used_mimeType_choose [of env] by simp
  with True assms show ?thesis
    by (simp add: startRecording_def Let_def new_MediaRecorder_def mr_start_def)
next
  case False
  then have "used_mimeType env = choose_mimeType env"
    using used_mimeType_choose [of env] by simp
  with False assms choose_mimeType_supported [of env] show ?thesis
    by (simp add: startRecording_def Let_def new_MediaRecorder_def mr_start_def)
qed

lemma startRecording_acquire:
  assumes "stream st = None"
  shows "startRecording env (Inr ms) now st = startRecording env (Inr ms) now (acquired ms st)"
  using assms
  by (simp add: startRecording_def setupCamera_def setupCamera_begin_def
      setupCamera_resume_def acquired_def Let_def)

lemma startScrolling_frame:
  "recordedChunks (startScrolling now st) = recordedChunks st"
  "mediaRecorder (startScrolling now st) = mediaRecorder st"
  "isRecording (startScrolling now st) = isRecording st"
  "effects (startScrolling now st) = effects st"
  by (simp_all add: startScrolling_def Let_def)

lemma stopScrolling_frame:
  "recordedChunks (stopScrolling st) = recordedChunks st"
  "mediaRecorder (stopScrolling st) = mediaRecorder st"
  "isRecording (stopScrolling st) = isRecording st"
  "effects (stopScrolling st) = effects st"
  by (simp_all add: stopScrolling_def Let_def clearInterval_def split: option.splits)

lemma session_state_held:
  assumes "\<not> isRecording st" and "stream st = Some ms" and "windowMediaRecorder env"
  shows "recordedChunks (run env (session a n1 ds1 n2 ds2) st) =
           filter (\<lambda>d. 0 < blob_size d) (ds1 @ ds2)"
    and "mediaRecorder (run env (session a n1 ds1 n2 ds2) st) =
           Some \<lparr>rec_stream = ms, mimeType = used_mimeType env, rec_state = Inactive,
                 timeslice = Some 1000\<rparr>"
    and "mediaRecorder (handle env (RecordClick a n1) st) =
           Some \<lparr>rec_stream = ms, mimeType = used_mimeType env, rec_state = RecordingState,
                 timeslice = Some 1000\<rparr>"
  using assms
  by (simp_all add: session_def run_append run_data toggleRecording_def startRecording_ok
        startScrolling_frame stopScrolling_frame stopRecording_def mr_stop_def)

lemma session_state:
  assumes "\<not> isRecording st" and "windowMediaRecorder env"
    and "stream st = Some ms \<or> (stream st = None \<and> a = Inr ms)"
  shows "recordedChunks (run env (session a n1 ds1 n2 ds2) st) =
           filter (\<lambda>d. 0 < blob_size d) (ds1 @ ds2)"
    and "mediaRecorder (run env (session a n1 ds1 n2 ds2) st) =
           Some \<lparr>rec_stream = ms, mimeType = used_mimeType env, rec_state = Inactive,
                 timeslice = Some 1000\<rparr>"
    and "mediaRecorder (handle env (RecordClick a n1) st) =
           Some \<lparr>rec_stream = ms, mimeType = used_mimeType env, rec_state = RecordingState,
                 timeslice = Some 1000\<rparr>"
proof -
  show "recordedChunks (run env (session a n1 ds1 n2 ds2) st) =
           filter (\<lambda>d. 0 < blob_size d) (ds1 @ ds2)"
    and "mediaRecorder (run env (session a n1 ds1 n2 ds2) st) =
           Some \<lparr>rec_stream = ms, mimeType = used_mimeType env, rec_state = Inactive,
                 timeslice = Some 1000\<rparr>"
    and "mediaRecorder (handle env (RecordClick a n1) st) =
           Some \<lparr>rec_stream = ms, mimeType = used_mimeType env, rec_state = RecordingState,
                 timeslice = Some 1000\<rparr>"
  proof (atomize (full), cases "stream st")
    case (Some x)
    with assms(3) have "stream st = Some ms" by simp
    from session_state_held [OF assms(1) this assms(2)] show
      "recordedChunks (run env (session a n1 ds1 n2 ds2) st) =
           filter (\<lambda>d. 0 < blob_size d) (ds1 @ ds2) \<and>
       mediaRecorder (run env (session a n1 ds1 n2 ds2) st) =
           Some \<lparr>rec_stream = ms, mimeType = used_mimeType env, rec_state = Inactive,
                 timeslice = Some 1000\<rparr> \<and>
       mediaRecorder (handle env (RecordClick a n1) st) =
           Some \<lparr>rec_stream = ms, mimeType = used_mimeType env, rec_state = RecordingState,
                 timeslice = Some 1000\<rparr>"
      by blast
  next
    case None
    with assms(3) have a: "a = Inr ms" by simp
    let ?st = "acquired ms st"
    have h: "handle env (RecordClick a n1) st = handle env (RecordClick a n1) ?st"
      using assms(1) None a
      by (simp add: toggleRecording_def startRecording_acquire [symmetric]) (simp add: acquired_def)
    have r: "run env (session a n1 ds1 n2 ds2) st = run env (session a n1 ds1 n2 ds2) ?st"
      using h by (simp add: session_def)
    have "\<not> isRecording ?st" "stream ?st = Some ms"
      using assms(1) by (simp_all add: acquired_def)
    from session_state_held [OF this assms(2)] show
      "recordedChunks (run env (session a n1 ds1 n2 ds2) st) =
           filter (\<lambda>d. 0 < blob_size d) (ds1 @ ds2) \<and>
       mediaRecorder (run env (session a n1 ds1 n2 ds2) st) =
           Some \<lparr>rec_stream = ms, mimeType = used_mimeType env, rec_state = Inactive,
                 timeslice = Some 1000\<rparr> \<and>
       mediaRecorder (handle env (RecordClick a n1) st) =
           Some \<lparr>rec_stream = ms, mimeType = used_mimeType env, rec_state = RecordingState,
                 timeslice = Some 1000\<rparr>"
      unfolding r h by blast
  qed
qed

lemma concat_filter_nonempty:
  "concat (map bytes (filter (\<lambda>d. 0 < blob_size d) ds)) = concat (map bytes ds)"
  by (induction ds) (simp_all add: blob_size_def)

lemma saved_blob:
  assumes "\<not> isRecording st" and "windowMediaRecorder env"
    and "stream st = Some ms \<or> (stream st = None \<and> a = Inr ms)"
    and "concat (map bytes (ds1 @ ds2)) \<noteq> []"
  shows "effects (run env (session a n1 ds1 n2 ds2 @ [RecorderStop]) st) =
           effects (run env (session a n1 ds1 n2 ds2) st) @
             [Download
                \<lparr>bytes = concat (map bytes (ds1 @ ds2)),
                 btype = (if used_mimeType env \<noteq> [] then used_mimeType env else ''video/webm'')\<rparr>
                (if used_mimeType env \<noteq> [] \<and> str_includes (used_mimeType env) ''mp4''
                 then ''mp4'' else ''webm'')
                (str_includes (userAgent env) ''iPhone'' \<or> str_includes (userAgent env) ''iPad'')]"
proof -
  let ?st = "run env (session a n1 ds1 n2 ds2) st"
  note ss = session_state [OF assms(1-3)]
  have ne: "recordedChunks ?st \<noteq> []"
    using assms(4) ss(1) concat_filter_nonempty [of "ds1 @ ds2"] by auto
  have cc: "concat (map bytes (recordedChunks ?st)) = concat (map bytes (ds1 @ ds2))"
    using ss(1) concat_filter_nonempty [of "ds1 @ ds2"] by simp
  show ?thesis
    unfolding run_append
    using ne cc assms(4) ss(2)
    by (auto simp: onstop_def saveRecording_def Let_def new_Blob_def blob_size_def)
qed


text \<open>
  C3.  When a click starts a recording, the recorder is created for the first
  supported entry of the probe order (for the platform's own type when no entry is
  supported), and the file saved at the end of the session is tagged with the type
  of that recorder.
\<close>

theorem recorder_uses_first_supported_type:
  assumes "\<not> isRecording st" and "windowMediaRecorder env"
    and "stream st = Some ms \<or> (stream st = None \<and> a = Inr ms)"
  shows "(\<forall>t. find (isTypeSupported env) mime_preference = Some t \<longrightarrow>
            mediaRecorder (handle env (RecordClick a n1) st) =
              Some \<lparr>rec_stream = ms, mimeType = t, rec_state = RecordingState,
                    timeslice = Some 1000\<rparr>
          \<and> (concat (map bytes (ds1 @ ds2)) \<noteq> [] \<longrightarrow>
               effects (run env (session a n1 ds1 n2 ds2 @ [RecorderStop]) st) =
                 effects (run env (session a n1 ds1 n2 ds2) st) @
                   [Download \<lparr>bytes = concat (map bytes (ds1 @ ds2)), btype = t\<rparr>
                      (if str_includes t ''mp4'' then ''mp4'' else ''webm'')
                      (str_includes (userAgent env) ''iPhone'' \<or>
                       str_includes (userAgent env) ''iPad'')]))
       \<and> (find (isTypeSupported env) mime_preference = None \<longrightarrow>
            mediaRecorder (handle env (RecordClick a n1) st) =
              Some \<lparr>rec_stream = ms, mimeType = defaultMimeType env,
                    rec_state = RecordingState, timeslice = Some 1000\<rparr>
          \<and> (concat (map bytes (ds1 @ ds2)) \<noteq> [] \<and> defaultMimeType env \<noteq> [] \<longrightarrow>
               effects (run env (session a n1 ds1 n2 ds2 @ [RecorderStop]) st) =
                 effects (run env (session a n1 ds1 n2 ds2) st) @
                   [Download \<lparr>bytes = concat (map bytes (ds1 @ ds2)),
                              btype = defaultMimeType env\<rparr>
                      (if str_includes (defaultMimeType env) ''mp4'' then ''mp4'' else ''webm'')
                      (str_includes (userAgent env) ''iPhone'' \<or>
                       str_includes (userAgent env) ''iPad'')]))"
proof -
  note ss = session_state [OF assms(1-3)]
  have some: "find (isTypeSupported env) mime_preference = Some t \<Longrightarrow>
                used_mimeType env = t \<and> t \<noteq> []" for t
    using find_preference_nonempty [of "isTypeSupported env" t]
    by (simp add: used_mimeType_def)
  have none: "find (isTypeSupported env) mime_preference = None \<Longrightarrow>
                used_mimeType env = defaultMimeType env"
    by (simp add: used_mimeType_def)
  show ?thesis
    using ss(3) [of n1] saved_blob [OF assms(1-3), of ds1 ds2 n1 n2] some none
    by auto
qed

theorem recorder_uses_first_supported_type_witness:
  "\<not> isRecording ready0 \<and> windowMediaRecorder env_webm_only \<and> stream ready0 = Some cam0
   \<and> find (isTypeSupported env_webm_only) mime_preference = Some ''video/webm''
   \<and> mediaRecorder (handle env_webm_only (RecordClick (Inl ''unused'') 5) ready0) =
       Some \<lparr>rec_stream = cam0, mimeType = ''video/webm'', rec_state = RecordingState,
             timeslice = Some 1000\<rparr>
   \<and> effects (run env_webm_only (session (Inl ''unused'') 5 [chunkA] 9 [chunkB] @ [RecorderStop])
               ready0) =
       effects (run env_webm_only (session (Inl ''unused'') 5 [chunkA] 9 [chunkB]) ready0) @
         [Download \<lparr>bytes = [1, 2, 3, 4, 5], btype = ''video/webm''\<rparr> ''webm'' False]
   \<and> find (isTypeSupported env_none) mime_preference = None
   \<and> mediaRecorder (handle env_none (RecordClick (Inl ''unused'') 5) ready0) =
       Some \<lparr>rec_stream = cam0, mimeType = ''video/x-matroska'', rec_state = RecordingState,
             timeslice = Some 1000\<rparr>"
proof -
  have h1: "\<not> isRecording ready0" and h3: "stream ready0 = Some cam0 \<or>
                 (stream ready0 = None \<and> (Inl ''unused'' :: string + MediaStream) = Inr cam0)"
    by (simp_all add: ready0_eq new_VideoTeleprompter_def)
  have h2: "windowMediaRecorder env_webm_only" and h2': "windowMediaRecorder env_none"
    by (simp_all add: env_webm_only_def env_none_def)
  have f: "find (isTypeSupported env_webm_only) mime_preference = Some ''video/webm''"
    by (simp add: env_webm_only_def mime_preference_def)
  have f': "find (isTypeSupported env_none) mime_preference = None"
    by (simp add: env_none_def mime_preference_def)
  have b: "concat (map bytes ([chunkA] @ [chunkB])) = [1, 2, 3, 4, 5]"
    by (simp add: chunkA_def chunkB_def)
  have u: "\<not> str_includes (userAgent env_webm_only) ''iPhone''"
          "\<not> str_includes (userAgent env_webm_only) ''iPad''"
          "\<not> str_includes ''video/webm'' ''mp4''"
          "defaultMimeType env_none = ''video/x-matroska''"
    by (simp_all add: env_webm_only_def env_none_def)
  have s: "stream ready0 = Some cam0"
    by (simp add: ready0_eq)
  show ?thesis
    using recorder_uses_first_supported_type [OF h1 h2 h3, of 5 "[chunkA]" "[chunkB]" 9]
      recorder_uses_first_supported_type [OF h1 h2' h3, of 5 "[chunkA]" "[chunkB]" 9]
      h1 h2 f f' b u s
    by (simp add: chunkA_def chunkB_def)
qed

subsection \<open>The chunk sequence, event by event\<close>

text \<open>Only the data handler and the click on the record button touch the chunk
  sequence and the recording flag.\<close>

lemma received_simps [simp]:
  "received [] = []"
  "received (e # evs) = data_of e @ received evs"
  "received (xs @ ys) = received xs @ received ys"
  by (simp_all add: received_def)

lemma chunks_frames:
  "recordedChunks (switchCamera answer st) = recordedChunks st"
  "recordedChunks (toggleTextRotation st) = recordedChunks st"
  "recordedChunks (updateSpeedDisplay now st) = recordedChunks st"
  "recordedChunks (updateTextSizeDisplay st) = recordedChunks st"
  "recordedChunks (saveSettings st) = recordedChunks st"
  "recordedChunks (endDrag st) = recordedChunks st"
  "recordedChunks (endResize st) = recordedChunks st"
  "recordedChunks (scrollTick i now st) = recordedChunks st"
  "recordedChunks (saveRecording env st) = recordedChunks st"
  "recordedChunks (stopRecording st) = recordedChunks st"
  by (auto simp: switchCamera_def setupCamera_def setupCamera_begin_def setupCamera_resume_def
      stop_all_tracks_eq toggleTextRotation_def updateSpeedDisplay_def startScrolling_frame
      stopScrolling_frame updateTextSizeDisplay_def saveSettings_def endDrag_def endResize_def
      scrollTick_def clearInterval_def saveRecording_def stopRecording_def Let_def
      split: option.splits sum.splits prod.splits)

lemma recording_frames:
  "isRecording (switchCamera answer st) = isRecording st"
  "isRecording (toggleTextRotation st) = isRecording st"
  "isRecording (updateSpeedDisplay now st) = isRecording st"
  "isRecording (updateTextSizeDisplay st) = isRecording st"
  "isRecording (saveSettings st) = isRecording st"
  "isRecording (endDrag st) = isRecording st"
  "isRecording (endResize st) = isRecording st"
  "isRecording (scrollTick i now st) = isRecording st"
  "isRecording (saveRecording env st) = isRecording st"
  "isRecording (ondataavailable d st) = isRecording st"
  by (auto simp: switchCamera_def setupCamera_def setupCamera_begin_def setupCamera_resume_def
      stop_all_tracks_eq toggleTextRotation_def updateSpeedDisplay_def startScrolling_frame
      stopScrolling_frame updateTextSizeDisplay_def saveSettings_def endDrag_def endResize_def
      scrollTick_def clearInterval_def saveRecording_def ondataavailable_def Let_def
      split: option.splits sum.splits prod.splits)

lemma handle_chunks:
  "\<not> is_RecordClick e \<Longrightarrow>
   recordedChunks (handle env e st) =
     recordedChunks st @ filter (\<lambda>d. 0 < blob_size d) (data_of e)"
  by (cases e)
     (simp_all add: is_RecordClick_def data_of_def chunks_frames onstop_def ondataavailable_def
        Let_def split: prod.splits list.splits)

lemma handle_recording:
  "\<not> is_RecordClick e \<Longrightarrow> isRecording (handle env e st) = isRecording st"
  by (cases e)
     (simp_all add: is_RecordClick_def recording_frames onstop_def Let_def
        split: prod.splits list.splits)

lemma startRecording_chunks:
  "recordedChunks (startRecording env answer now st) =
     (if stream st = None \<and> isl answer then recordedChunks st else [])"
  by (auto simp: startRecording_def startRecording_catch_def setupCamera_def
      setupCamera_begin_def setupCamera_resume_def startScrolling_frame Let_def isl_def
      split: option.splits sum.splits prod.splits)

lemma handle_click_chunks:
  "recordedChunks (handle env (RecordClick answer now) st) =
     (if isRecording st \<or> (stream st = None \<and> isl answer) then recordedChunks st else [])"
  by (simp add: toggleRecording_def chunks_frames startRecording_chunks)

lemma run_no_click:
  "filter is_RecordClick evs = [] \<Longrightarrow>
   recordedChunks (run env evs st) =
     recordedChunks st @ filter (\<lambda>d. 0 < blob_size d) (received evs)"
proof (induction evs arbitrary: st)
  case Nil
  show ?case by simp
next
  case (Cons e evs)
  from Cons.prems have e: "\<not> is_RecordClick e" and r: "filter is_RecordClick evs = []"
    by (simp_all split: if_splits)
  show ?case
    unfolding run_Cons Cons.IH [OF r] handle_chunks [OF e] by simp
qed

lemma run_one_click:
  "length (filter is_RecordClick evs) \<le> 1 \<Longrightarrow> isRecording st \<Longrightarrow>
   recordedChunks (run env evs st) =
     recordedChunks st @ filter (\<lambda>d. 0 < blob_size d) (received evs)"
proof (induction evs arbitrary: st)
  case Nil
  show ?case by simp
next
  case (Cons e evs)
  show ?case
  proof (cases "is_RecordClick e")
    case True
    with Cons.prems(1) have r: "filter is_RecordClick evs = []" by simp
    from True obtain a n where e: "e = RecordClick a n"
      by (cases e) (simp_all add: is_RecordClick_def)
    have d: "data_of e = []" by (simp add: e data_of_def)
    have "recordedChunks (handle env e st) = recordedChunks st"
      using Cons.prems(2) handle_click_chunks [of env a n st] by (simp add: e)
    then show ?thesis
      unfolding run_Cons run_no_click [OF r] by (simp add: d)
  next
    case False
    with Cons.prems(1) have r: "length (filter is_RecordClick evs) \<le> 1" by simp
    have i: "isRecording (handle env e st)"
      using Cons.prems(2) handle_recording [OF False] by simp
    show ?thesis
      unfolding run_Cons Cons.IH [OF r i] handle_chunks [OF False] by simp
  qed
qed

lemma start_state:
  assumes "\<not> isRecording st" and "windowMediaRecorder env"
    and "stream st = Some ms \<or> (stream st = None \<and> a = Inr ms)"
  shows "recordedChunks (handle env (RecordClick a n) st) = []"
    and "isRecording (handle env (RecordClick a n) st)"
proof -
  show "recordedChunks (handle env (RecordClick a n) st) = []"
    using assms(1,3) handle_click_chunks [of env a n st] by auto
  show "isRecording (handle env (RecordClick a n) st)"
  proof (cases "stream st")
    case (Some x)
    with assms(3) have "stream st = Some ms" by simp
    then show ?thesis
      using assms(1,2)
      by (simp add: toggleRecording_def startRecording_ok startScrolling_frame)
  next
    case None
    with assms(3) have a: "a = Inr ms" by simp
    have "stream (acquired ms st) = Some ms"
      by (simp add: acquired_def)
    then show ?thesis
      using assms(1,2) None
      by (simp add: a toggleRecording_def startRecording_acquire startRecording_ok
          startScrolling_frame)
  qed
qed

lemma session_chunks:
  assumes "\<not> isRecording st" and "windowMediaRecorder env"
    and "stream st = Some ms \<or> (stream st = None \<and> a = Inr ms)"
    and "length (filter is_RecordClick evs) \<le> 1"
  shows "recordedChunks (run env (RecordClick a n # evs) st) =
           filter (\<lambda>d. 0 < blob_size d) (received evs)"
  unfolding run_Cons
  using run_one_click [OF assms(4) start_state(2) [OF assms(1-3)], of env n]
    start_state(1) [OF assms(1-3), of n]
  by simp

lemma save_some:
  "concat (map bytes (recordedChunks s)) \<noteq> [] \<Longrightarrow>
   \<exists>ty ext blank.
     effects (saveRecording env s) =
       effects s @ [Download \<lparr>bytes = concat (map bytes (recordedChunks s)), btype = ty\<rparr> ext blank]"
  by (auto simp: saveRecording_def Let_def new_Blob_def blob_size_def split: prod.splits)

lemma save_none:
  "recordedChunks s = [] \<Longrightarrow>
   effects (saveRecording env s) =
     effects s @ [ConsoleError ''No recording data available'',
                  Alert ''No recording data available. Recording may have failed.'']"
  by (simp add: saveRecording_def)



lemma used_webm_only: "used_mimeType env_webm_only = ''video/webm''"
  by (simp add: used_mimeType_def mime_preference_def env_webm_only_def)

lemma started0:
  "toggleRecording env_webm_only (Inl ''unused'') 5 ready0 =
     ready0\<lparr>recordedChunks := [],
            mediaRecorder := Some \<lparr>rec_stream = cam0, mimeType = ''video/webm'',
                                   rec_state = RecordingState, timeslice = Some 1000\<rparr>,
            isRecording := True, recordButton_recording := True,
            isScrolling := True, scriptInput_scrolling := True, scriptInput_scrollTop := Num 0,
            timers := [1 \<mapsto> \<lparr>durationMs = Num 200, maxScroll = 600\<rparr>],
            lastTimerId := 1, scrollInterval := Some 1, scrollStartTime := Some 5\<rparr>"
  using recording0 by simp

lemma stopped0:
  "run env_webm_only
     [RecordClick (Inl ''unused'') 5, DataAvailable chunkA, RecordClick (Inl ''unused'') 9] ready0 =
     ready0\<lparr>recordedChunks := [chunkA],
            mediaRecorder := Some \<lparr>rec_stream = cam0, mimeType = ''video/webm'',
                                   rec_state = Inactive, timeslice = Some 1000\<rparr>,
            isRecording := False, recordButton_recording := False,
            isScrolling := False, scriptInput_scrolling := False, scriptInput_scrollTop := Num 0,
            timers := Map.empty,
            lastTimerId := 1, scrollInterval := None, scrollStartTime := Some 5\<rparr>"
proof -
  have a: "run env_webm_only
     [RecordClick (Inl ''unused'') 5, DataAvailable chunkA, RecordClick (Inl ''unused'') 9] ready0 =
     toggleRecording env_webm_only (Inl ''unused'') 9
       (ondataavailable chunkA (toggleRecording env_webm_only (Inl ''unused'') 5 ready0))"
    by simp
  show ?thesis
    unfolding a started0
    by (simp add: ondataavailable_def chunkA_def blob_size_def toggleRecording_def
        stopRecording_def stopScrolling_def clearInterval_def mr_stop_def Let_def)
qed

lemma restarted0:
  "recordedChunks
     (run env_webm_only
        [RecordClick (Inl ''unused'') 5, DataAvailable chunkA, RecordClick (Inl ''unused'') 9,
         RecordClick (Inl ''unused'') 12] ready0) = []"
  "mediaRecorder
     (run env_webm_only
        [RecordClick (Inl ''unused'') 5, DataAvailable chunkA, RecordClick (Inl ''unused'') 9,
         RecordClick (Inl ''unused'') 12] ready0) =
     Some \<lparr>rec_stream = cam0, mimeType = ''video/webm'', rec_state = RecordingState,
           timeslice = Some 1000\<rparr>"
proof -
  let ?s = "run env_webm_only
     [RecordClick (Inl ''unused'') 5, DataAvailable chunkA, RecordClick (Inl ''unused'') 9] ready0"
  have r: "run env_webm_only
        [RecordClick (Inl ''unused'') 5, DataAvailable chunkA, RecordClick (Inl ''unused'') 9,
         RecordClick (Inl ''unused'') 12] ready0 =
        toggleRecording env_webm_only (Inl ''unused'') 12 ?s"
    using run_append [of env_webm_only
        "[RecordClick (Inl ''unused'') 5, DataAvailable chunkA, RecordClick (Inl ''unused'') 9]"
        "[RecordClick (Inl ''unused'') 12]" ready0]
    by simp
  have i: "\<not> isRecording ?s" and s: "stream ?s = Some cam0"
    unfolding stopped0 by (simp_all add: ready0_eq)
  have w: "windowMediaRecorder env_webm_only"
    by (simp add: env_webm_only_def)
  have t: "toggleRecording env_webm_only (Inl ''unused'') 12 ?s =
             startRecording env_webm_only (Inl ''unused'') 12 ?s"
    using i by (simp only: toggleRecording_def if_False)
  show "recordedChunks
     (run env_webm_only
        [RecordClick (Inl ''unused'') 5, DataAvailable chunkA, RecordClick (Inl ''unused'') 9,
         RecordClick (Inl ''unused'') 12] ready0) = []"
    unfolding r t startRecording_ok [OF s w] by (simp add: startScrolling_frame)
  show "mediaRecorder
     (run env_webm_only
        [RecordClick (Inl ''unused'') 5, DataAvailable chunkA, RecordClick (Inl ''unused'') 9,
         RecordClick (Inl ''unused'') 12] ready0) =
     Some \<lparr>rec_stream = cam0, mimeType = ''video/webm'', rec_state = RecordingState,
           timeslice = Some 1000\<rparr>"
    unfolding r t startRecording_ok [OF s w]
    by (simp add: startScrolling_frame used_webm_only)
qed

lemma ua_webm_only:
  "\<not> str_includes (userAgent env_webm_only) ''iPhone''"
  "\<not> str_includes (userAgent env_webm_only) ''iPad''"
  "\<not> str_includes ''video/webm'' ''mp4''"
  by (simp_all add: env_webm_only_def)



section \<open>Stored chunks\<close>

lemma app_run_Nil [simp]: "app_run env [] st = st"
  by (simp add: app_run_def)

lemma app_run_Cons [simp]: "app_run env (e # evs) st = app_run env evs (app_handle env e st)"
  by (simp add: app_run_def)

lemma app_toggle_chunks:
  "\<forall>b \<in> set (vc_recordedChunks st). 0 < blob_size b \<Longrightarrow>
   \<forall>b \<in> set (vc_recordedChunks (ControlsComponent_toggleRecording env st)). 0 < blob_size b"
  by (auto simp: ControlsComponent_toggleRecording_def VideoComponent_stopRecording_def
      VideoComponent_startRecording_def checkRecordingCompatibility_def startScroll_def
      stopScroll_def Let_def
      split: option.splits prod.splits list.splits sum.splits if_splits)

lemma app_handle_chunks:
  "\<forall>b \<in> set (vc_recordedChunks st). 0 < blob_size b \<Longrightarrow>
   \<forall>b \<in> set (vc_recordedChunks (app_handle env e st)). 0 < blob_size b"
proof (cases e)
  case ApiStartRecording
  assume "\<forall>b \<in> set (vc_recordedChunks st). 0 < blob_size b"
  then show ?thesis using ApiStartRecording app_toggle_chunks [of st env]
    by (simp add: App_startRecording_def)
next
  case ApiStopRecording
  assume "\<forall>b \<in> set (vc_recordedChunks st). 0 < blob_size b"
  then show ?thesis using ApiStopRecording app_toggle_chunks [of st env]
    by (simp add: App_stopRecording_def)
next
  case RecordButtonClick
  assume "\<forall>b \<in> set (vc_recordedChunks st). 0 < blob_size b"
  then show ?thesis using RecordButtonClick app_toggle_chunks [of st env]
    by simp
next
  case (VcDataAvailable d)
  assume "\<forall>b \<in> set (vc_recordedChunks st). 0 < blob_size b"
  then show ?thesis using VcDataAvailable
    by (simp add: VideoComponent_ondataavailable_def)
next
  case VcRecorderStop
  assume "\<forall>b \<in> set (vc_recordedChunks st). 0 < blob_size b"
  then show ?thesis using VcRecorderStop
    by (simp add: downloadRecording_def Let_def split: list.splits)
qed

lemma app_run_chunks:
  "\<forall>b \<in> set (vc_recordedChunks st). 0 < blob_size b \<Longrightarrow>
   \<forall>b \<in> set (vc_recordedChunks (app_run env evs st)). 0 < blob_size b"
proof (induction evs arbitrary: st)
  case Nil
  then show ?case by simp
next
  case (Cons e evs)
  from Cons.prems have "\<forall>b \<in> set (vc_recordedChunks (app_handle env e st)). 0 < blob_size b"
    by (rule app_handle_chunks)
  then show ?case
    unfolding app_run_Cons by (rule Cons.IH)
qed

lemma positive_chunks_blob:
  "\<forall>b \<in> set chunks. 0 < blob_size b \<Longrightarrow> (blob_size (new_Blob chunks ty) = 0) = (chunks = [])"
  by (cases chunks) (auto simp: new_Blob_def blob_size_def)

lemma settings_chunks:
  "recordedChunks (loadSettings st) = recordedChunks st"
  "recordedChunks (checkCompatibility env st) = recordedChunks st"
  by (simp_all add: loadSettings_def checkCompatibility_def updateTextSizeDisplay_def Let_def
      split: stored.splits)

lemma setupCamera_chunks:
  "recordedChunks (case setupCamera answer st of Inl (e, s) \<Rightarrow> s | Inr s \<Rightarrow> s) =
     recordedChunks st"
  by (simp add: setupCamera_def setupCamera_begin_def setupCamera_resume_def stop_all_tracks_eq
      Let_def split: sum.splits option.splits)

lemma init_chunks:
  "recordedChunks (init env answer now (new_VideoTeleprompter page)) = []"
proof -
  let ?s = "updateTextSizeDisplay
              (updateSpeedDisplay now (loadSettings (checkCompatibility env
                 (new_VideoTeleprompter page))))"
  have "recordedChunks (init env answer now (new_VideoTeleprompter page)) =
          recordedChunks (case setupCamera answer ?s of Inl (e, s) \<Rightarrow> s | Inr s \<Rightarrow> s)"
    by (simp add: init_def split: sum.splits)
  also have "\<dots> = recordedChunks ?s"
    by (rule setupCamera_chunks)
  also have "\<dots> = []"
    by (simp add: chunks_frames settings_chunks new_VideoTeleprompter_def)
  finally show ?thesis .
qed

lemma new_app_chunks: "vc_recordedChunks (new_VideoTeleprompterApp answer page) = []"
  by (simp add: new_VideoTeleprompterApp_def Let_def split: sum.splits)

lemma app_toggle_sequence:
  "vc_recordedChunks (ControlsComponent_toggleRecording env st) = vc_recordedChunks st
   \<or> vc_recordedChunks (ControlsComponent_toggleRecording env st) = []"
  by (auto simp: ControlsComponent_toggleRecording_def VideoComponent_stopRecording_def
      VideoComponent_startRecording_def checkRecordingCompatibility_def startScroll_def
      stopScroll_def Let_def
      split: option.splits prod.splits list.splits sum.splits if_splits)

lemma app_handle_sequence:
  "vc_recordedChunks (app_handle env e ap) = vc_recordedChunks ap
   \<or> vc_recordedChunks (app_handle env e ap) = []
   \<or> (\<exists>d. e = VcDataAvailable d \<and> 0 < blob_size d \<and>
          vc_recordedChunks (app_handle env e ap) = vc_recordedChunks ap @ [d])"
proof (cases e)
  case ApiStartRecording
  then show ?thesis using app_toggle_sequence [of env ap]
    by (simp add: App_startRecording_def)
next
  case ApiStopRecording
  then show ?thesis using app_toggle_sequence [of env ap]
    by (simp add: App_stopRecording_def)
next
  case RecordButtonClick
  then show ?thesis using app_toggle_sequence [of env ap]
    by simp
next
  case (VcDataAvailable d)
  then show ?thesis
    by (simp add: VideoComponent_ondataavailable_def)
next
  case VcRecorderStop
  then show ?thesis
    by (simp add: downloadRecording_def Let_def split: list.splits)
qed


lemma app_recorded_example:
  "vc_recordedChunks
     (app_run env_webm_only
        [RecordButtonClick, VcDataAvailable chunkA, VcDataAvailable chunk_empty]
        (new_VideoTeleprompterApp (Inr cam0) app_idle))
   = [chunkA]"
  by (simp add: ControlsComponent_toggleRecording_def VideoComponent_startRecording_def
      checkRecordingCompatibility_def typesToCheck_def new_MediaRecorder_def mr_start_def
      startScroll_def VideoComponent_ondataavailable_def app_idle_def env_webm_only_def
      new_VideoTeleprompterApp_def chunkA_def chunk_empty_def blob_size_def Let_def)




section \<open>Switching the camera\<close>

text \<open>\<open>switchCamera\<close> is the part of \<open>setupCamera\<close> before the \<open>await\<close>, then the part
  after it, then the \<open>catch\<close>.\<close>

lemma switchCamera_phases:
  "switchCamera answer st =
     (case setupCamera_resume answer
             (setupCamera_begin (st\<lparr>currentCamera := other_camera (currentCamera st)\<rparr>)) of
        Inr s \<Rightarrow> s
      | Inl (err, s) \<Rightarrow> s\<lparr>effects := effects s @ [ConsoleError err],
                            currentCamera := other_camera (currentCamera s)\<rparr>)"
  by (simp add: switchCamera_def setupCamera_def)

lemma setupCamera_begin_held:
  assumes "stream st = Some old" and "liveTracks st \<subseteq> set (tracks old)"
  shows "liveTracks (setupCamera_begin st) = {}"
    and "effects (setupCamera_begin st) =
           effects st @ map TrackStop (tracks old) @ [GetUserMedia (currentCamera st)]"
    and "stream (setupCamera_begin st) = Some old"
  using assms by (auto simp: setupCamera_begin_def stop_all_tracks_eq Let_def)

text \<open>
  C9 (as amended).  With every handler run to completion before the next event, in
  every state the page can reach only tracks of the held stream are capturing.
  Switching the camera while a stream is held stops every track of that stream and
  only then asks for the new one: no track is capturing between the request and its
  answer, and after the answer the capturing tracks are those of the new stream, or
  none when the request was refused.
\<close>

theorem switch_camera_releases_first:
  assumes "st = run env evs (init env answer0 now (new_VideoTeleprompter page))"
  shows "liveTracks st \<subseteq> held_tracks st
       \<and> (\<forall>old. stream st = Some old \<longrightarrow>
            liveTracks (setupCamera_begin (st\<lparr>currentCamera := other_camera (currentCamera st)\<rparr>))
              = {}
          \<and> effects (setupCamera_begin (st\<lparr>currentCamera := other_camera (currentCamera st)\<rparr>))
              = effects st @ map TrackStop (tracks old) @
                  [GetUserMedia (other_camera (currentCamera st))]
          \<and> liveTracks (switchCamera answer st) =
              (case answer of Inl err \<Rightarrow> {} | Inr ms \<Rightarrow> set (tracks ms))
          \<and> (\<forall>ms. answer = Inr ms \<longrightarrow> stream (switchCamera answer st) = Some ms))
       \<and> liveTracks (switchCamera answer st) \<subseteq> held_tracks (switchCamera answer st)"
proof -
  have i: "vt_inv st" unfolding assms by (rule inv_reachable)
  then have 1: "liveTracks st \<subseteq> held_tracks st"
    by (simp add: vt_inv_def)
  have 3: "liveTracks (switchCamera answer st) \<subseteq> held_tracks (switchCamera answer st)"
    using inv_switchCamera [OF i, of answer] by (simp add: vt_inv_def)
  have 2: "stream st = Some old \<longrightarrow>
            liveTracks (setupCamera_begin (st\<lparr>currentCamera := other_camera (currentCamera st)\<rparr>))
              = {}
          \<and> effects (setupCamera_begin (st\<lparr>currentCamera := other_camera (currentCamera st)\<rparr>))
              = effects st @ map TrackStop (tracks old) @
                  [GetUserMedia (other_camera (currentCamera st))]
          \<and> liveTracks (switchCamera answer st) =
              (case answer of Inl err \<Rightarrow> {} | Inr ms \<Rightarrow> set (tracks ms))
          \<and> (\<forall>ms. answer = Inr ms \<longrightarrow> stream (switchCamera answer st) = Some ms)" for old
  proof
    assume s: "stream st = Some old"
    let ?st = "st\<lparr>currentCamera := other_camera (currentCamera st)\<rparr>"
    have h: "stream ?st = Some old" "liveTracks ?st \<subseteq> set (tracks old)"
      using s 1 by (simp_all add: held_tracks_def)
    note b = setupCamera_begin_held [OF h]
    have l: "liveTracks (switchCamera answer st) =
              (case answer of Inl err \<Rightarrow> {} | Inr ms \<Rightarrow> set (tracks ms))"
      unfolding switchCamera_phases using b(1)
      by (simp add: setupCamera_resume_def split: sum.splits)
    have n: "\<forall>ms. answer = Inr ms \<longrightarrow> stream (switchCamera answer st) = Some ms"
      unfolding switchCamera_phases
      by (simp add: setupCamera_resume_def split: sum.splits)
    from b(1) b(2) l n show
      "liveTracks (setupCamera_begin ?st) = {}
          \<and> effects (setupCamera_begin ?st)
              = effects st @ map TrackStop (tracks old) @
                  [GetUserMedia (other_camera (currentCamera st))]
          \<and> liveTracks (switchCamera answer st) =
              (case answer of Inl err \<Rightarrow> {} | Inr ms \<Rightarrow> set (tracks ms))
          \<and> (\<forall>ms. answer = Inr ms \<longrightarrow> stream (switchCamera answer st) = Some ms)"
      by simp
  qed
  from 1 2 3 show ?thesis by blast
qed

theorem switch_camera_releases_first_witness:
  "stream ready0 = Some cam0 \<and> liveTracks ready0 = {1, 2}
   \<and> liveTracks (setupCamera_begin (ready0\<lparr>currentCamera := other_camera (currentCamera ready0)\<rparr>))
       = {}
   \<and> effects (setupCamera_begin (ready0\<lparr>currentCamera := other_camera (currentCamera ready0)\<rparr>))
       = [GetUserMedia ''user'', TrackStop 1, TrackStop 2, GetUserMedia ''environment'']
   \<and> liveTracks (switchCamera (Inr cam1) ready0) = {3, 4}
   \<and> stream (switchCamera (Inr cam1) ready0) = Some cam1
   \<and> liveTracks (switchCamera (Inl ''NotAllowedError'') ready0) = {}"
proof -
  have r: "ready0 = run env_webm_only [] (init env_webm_only (Inr cam0) 0 (new_VideoTeleprompter page0))"
    by (simp add: ready0_def)
  have s: "stream ready0 = Some cam0" "liveTracks ready0 = {1, 2}"
    "effects ready0 = [GetUserMedia ''user'']" "currentCamera ready0 = ''user''"
    by (simp_all add: ready0_eq new_VideoTeleprompter_def)
  show ?thesis
    using switch_camera_releases_first [OF r, of "Inr cam1"]
      switch_camera_releases_first [OF r, of "Inl ''NotAllowedError''"] s
    by (simp add: cam0_def cam1_def other_camera_def)
qed

text \<open>When a second click on the camera button comes before the first request is
  answered, both answers are kept capturing and only the second is held.\<close>

theorem switch_camera_overlap_counterexample:
  "stream ready0 = Some cam0
   \<and> liveTracks switch1_begun = {}
   \<and> stream both_answered = Some cam2
   \<and> liveTracks both_answered = {3, 4, 5, 6}
   \<and> \<not> liveTracks both_answered \<subseteq> held_tracks both_answered"
  by (auto simp: both_answered_def resumed_def switch2_begun_def switch1_begun_def
      setupCamera_resume_def setupCamera_begin_def stop_all_tracks_eq ready0_eq
      new_VideoTeleprompter_def held_tracks_def cam0_def cam1_def cam2_def Let_def)

section \<open>Geometry of the script box\<close>

lemma resize_bounds:
  "isResizing g \<Longrightarrow>
     px_at_least 300 (style_width (resize window x y g box)) \<and>
     px_at_least 200 (style_height (resize window x y g box)) \<and>
     (300 \<le> innerWidth window * (9 / 10) \<longrightarrow>
        px_between 300 (innerWidth window * (9 / 10)) (style_width (resize window x y g box))) \<and>
     (200 \<le> innerHeight window * (9 / 10) \<longrightarrow>
        px_between 200 (innerHeight window * (9 / 10)) (style_height (resize window x y g box)))"
  by (auto simp: resize_def Let_def px_at_least_def px_between_def max_def min_def)

lemma drag_bounds:
  "isDragging g \<Longrightarrow>
     px_at_least 0 (style_left (drag window rot x y g box)) \<and>
     px_at_least 0 (style_top (drag window rot x y g box)) \<and>
     (offsetWidth box \<le> innerWidth window \<longrightarrow>
        px_between 0 (innerWidth window - offsetWidth box)
          (style_left (drag window rot x y g box))) \<and>
     (offsetHeight box \<le> innerHeight window \<longrightarrow>
        px_between 0 (innerHeight window - offsetHeight box)
          (style_top (drag window rot x y g box)))"
  by (auto simp: drag_def Let_def px_at_least_def px_between_def max_def min_def)

lemma drag_frame:
  "style_width (drag window rot x y g box) = style_width box"
  "style_height (drag window rot x y g box) = style_height box"
  "offsetWidth (drag window rot x y g box) = offsetWidth box"
  "offsetHeight (drag window rot x y g box) = offsetHeight box"
  by (simp_all add: drag_def Let_def)

lemma resize_frame:
  "style_left (resize window x y g box) = style_left box"
  "style_top (resize window x y g box) = style_top box"
  by (simp_all add: resize_def Let_def)

lemma pinch_bounds:
  assumes "\<not> isDragging g" and "lastDistance g = Some prev" and "prev \<noteq> 0"
  shows "px_at_least 300 (style_width (snd (touchmove window rot [p1, p2] (g, box)))) \<and>
     px_at_least 200 (style_height (snd (touchmove window rot [p1, p2] (g, box)))) \<and>
     (300 \<le> innerWidth window * (9 / 10) \<longrightarrow>
        px_between 300 (innerWidth window * (9 / 10))
          (style_width (snd (touchmove window rot [p1, p2] (g, box))))) \<and>
     (200 \<le> innerHeight window * (9 / 10) \<longrightarrow>
        px_between 200 (innerHeight window * (9 / 10))
          (style_height (snd (touchmove window rot [p1, p2] (g, box)))))"
  using assms
  by (cases p1; cases p2)
     (auto simp: touchmove_def Let_def px_at_least_def px_between_def max_def min_def)

text \<open>
  C6 (as amended).  A resize, by the mouse or by a pinch, writes a width of at least
  300 and a height of at least 200, and these are at most nine tenths of the viewport
  whenever nine tenths of the viewport is at least that minimum.  A drag writes a left
  and a top of at least 0, and at most the viewport less the size of the box whenever
  the box is not larger than the viewport.
\<close>

theorem geometry_clamp:
  "(isResizing g \<longrightarrow>
      px_at_least 300 (style_width (mousemove window rot x y g box)) \<and>
      px_at_least 200 (style_height (mousemove window rot x y g box)) \<and>
      (300 \<le> innerWidth window * (9 / 10) \<longrightarrow>
         px_between 300 (innerWidth window * (9 / 10))
           (style_width (mousemove window rot x y g box))) \<and>
      (200 \<le> innerHeight window * (9 / 10) \<longrightarrow>
         px_between 200 (innerHeight window * (9 / 10))
           (style_height (mousemove window rot x y g box))))
   \<and> (isDragging g \<longrightarrow>
      px_at_least 0 (style_left (mousemove window rot x y g box)) \<and>
      px_at_least 0 (style_top (mousemove window rot x y g box)) \<and>
      (offsetWidth box \<le> innerWidth window \<longrightarrow>
         px_between 0 (innerWidth window - offsetWidth box)
           (style_left (mousemove window rot x y g box))) \<and>
      (offsetHeight box \<le> innerHeight window \<longrightarrow>
         px_between 0 (innerHeight window - offsetHeight box)
           (style_top (mousemove window rot x y g box))))
   \<and> (\<not> isDragging g \<and> lastDistance g = Some prev \<and> prev \<noteq> 0 \<longrightarrow>
      px_at_least 300 (style_width (snd (touchmove window rot [p1, p2] (g, box)))) \<and>
      px_at_least 200 (style_height (snd (touchmove window rot [p1, p2] (g, box)))) \<and>
      (300 \<le> innerWidth window * (9 / 10) \<longrightarrow>
         px_between 300 (innerWidth window * (9 / 10))
           (style_width (snd (touchmove window rot [p1, p2] (g, box))))) \<and>
      (200 \<le> innerHeight window * (9 / 10) \<longrightarrow>
         px_between 200 (innerHeight window * (9 / 10))
           (style_height (snd (touchmove window rot [p1, p2] (g, box))))))"
proof -
  have r: "isResizing g \<longrightarrow>
      px_at_least 300 (style_width (mousemove window rot x y g box)) \<and>
      px_at_least 200 (style_height (mousemove window rot x y g box)) \<and>
      (300 \<le> innerWidth window * (9 / 10) \<longrightarrow>
         px_between 300 (innerWidth window * (9 / 10))
           (style_width (mousemove window rot x y g box))) \<and>
      (200 \<le> innerHeight window * (9 / 10) \<longrightarrow>
         px_between 200 (innerHeight window * (9 / 10))
           (style_height (mousemove window rot x y g box)))"
    unfolding mousemove_def using resize_bounds [of g window x y "drag window rot x y g box"]
    by blast
  have d: "isDragging g \<longrightarrow>
      px_at_least 0 (style_left (mousemove window rot x y g box)) \<and>
      px_at_least 0 (style_top (mousemove window rot x y g box)) \<and>
      (offsetWidth box \<le> innerWidth window \<longrightarrow>
         px_between 0 (innerWidth window - offsetWidth box)
           (style_left (mousemove window rot x y g box))) \<and>
      (offsetHeight box \<le> innerHeight window \<longrightarrow>
         px_between 0 (innerHeight window - offsetHeight box)
           (style_top (mousemove window rot x y g box)))"
    unfolding mousemove_def resize_frame using drag_bounds [of g window rot x y box]
    by blast
  have p: "\<not> isDragging g \<and> lastDistance g = Some prev \<and> prev \<noteq> 0 \<longrightarrow>
      px_at_least 300 (style_width (snd (touchmove window rot [p1, p2] (g, box)))) \<and>
      px_at_least 200 (style_height (snd (touchmove window rot [p1, p2] (g, box)))) \<and>
      (300 \<le> innerWidth window * (9 / 10) \<longrightarrow>
         px_between 300 (innerWidth window * (9 / 10))
           (style_width (snd (touchmove window rot [p1, p2] (g, box))))) \<and>
      (200 \<le> innerHeight window * (9 / 10) \<longrightarrow>
         px_between 200 (innerHeight window * (9 / 10))
           (style_height (snd (touchmove window rot [p1, p2] (g, box)))))"
    using pinch_bounds [of g prev window rot p1 p2 box] by blast
  from r d p show ?thesis by blast
qed

theorem geometry_clamp_witness:
  "isResizing gesture0 \<and> isDragging gesture0
   \<and> 300 \<le> innerWidth window0 * (9 / 10) \<and> 200 \<le> innerHeight window0 * (9 / 10)
   \<and> offsetWidth box0 \<le> innerWidth window0 \<and> offsetHeight box0 \<le> innerHeight window0
   \<and> px_between 300 900 (style_width (mousemove window0 False 2000 70 gesture0 box0))
   \<and> px_between 200 720 (style_height (mousemove window0 False 2000 70 gesture0 box0))
   \<and> px_between 0 600 (style_left (mousemove window0 False 2000 70 gesture0 box0))
   \<and> px_between 0 500 (style_top (mousemove window0 False 2000 70 gesture0 box0))
   \<and> \<not> isDragging gesture_pinch \<and> lastDistance gesture_pinch = Some 5
   \<and> px_between 300 900
       (style_width (snd (touchmove window0 False [(0, 0), (30, 40)] (gesture_pinch, box0))))
   \<and> px_between 200 720
       (style_height (snd (touchmove window0 False [(0, 0), (30, 40)] (gesture_pinch, box0))))"
  using geometry_clamp [of gesture0 window0 False 2000 70 box0]
    geometry_clamp [of gesture_pinch window0 False _ _ box0 5 "(0, 0)" "(30, 40)"]
  by (simp add: gesture0_def gesture_pinch_def window0_def box0_def)

lemma mousemove_example:
  "style_width (mousemove window0 False 2000 70 gesture0 box0) = Some 900
   \<and> style_height (mousemove window0 False 2000 70 gesture0 box0) = Some 310
   \<and> style_left (mousemove window0 False 2000 70 gesture0 box0) = Some 600
   \<and> style_top (mousemove window0 False 2000 70 gesture0 box0) = Some 30"
  by (simp add: mousemove_def resize_def drag_def Let_def window0_def gesture0_def box0_def)

text \<open>On a viewport 320 pixels wide the resize writes the width 300, above nine
  tenths of the viewport, and the drag of a box 400 pixels wide writes the left 0,
  which leaves the box across the right edge.\<close>

theorem geometry_clamp_counterexample:
  "isResizing gesture0 \<and> isDragging gesture0
   \<and> style_width (mousemove narrow_window False 50 60 gesture0 box0) = Some 300
   \<and> \<not> px_between 300 (innerWidth narrow_window * (9 / 10))
         (style_width (mousemove narrow_window False 50 60 gesture0 box0))
   \<and> style_left (mousemove narrow_window False 50 60 gesture0 box0) = Some 0
   \<and> \<not> px_between 0 (innerWidth narrow_window - offsetWidth box0)
         (style_left (mousemove narrow_window False 50 60 gesture0 box0))"
  by (simp add: mousemove_def resize_def drag_def Let_def narrow_window_def gesture0_def
      box0_def px_between_def)


section \<open>Settings\<close>

lemma loadSettings_saved:
  fixes st0 p :: vt
  defines "st' \<equiv> loadSettings (st0\<lparr>localStorage := localStorage (saveSettings p)\<rparr>)"
  shows
    "scriptInput_value st' =
       (if scriptInput_value p \<noteq> [] then scriptInput_value p else scriptInput_value st0) \<and>
     speedSlider_value st' =
       (if speedSlider_value p \<noteq> [] then speedSlider_value p else speedSlider_value st0) \<and>
     textSizeSlider_value st' =
       (if textSizeSlider_value p \<noteq> [] then textSizeSlider_value p
        else textSizeSlider_value st0) \<and>
     currentCamera st' =
       (if currentCamera p \<noteq> [] then currentCamera p else currentCamera st0) \<and>
     isTextRotated st' = (if isTextRotated p then True else isTextRotated st0)"
  unfolding st'_def
  by (simp add: loadSettings_def saveSettings_def Let_def truthy_str_def truthy_bool_def
      updateTextSizeDisplay_def)

lemma loadSettings2_saved:
  fixes q0 q :: vt2
  defines "q' \<equiv> loadSettings2 (q0\<lparr>localStorage2 := localStorage2 (saveSettings2 q)\<rparr>)"
  shows
    "scriptInput_value2 q' =
       (if scriptInput_value2 q \<noteq> [] then scriptInput_value2 q else scriptInput_value2 q0) \<and>
     speedSlider_value2 q' =
       (if speedSlider_value2 q \<noteq> [] then speedSlider_value2 q else speedSlider_value2 q0) \<and>
     textSizeSlider_value2 q' =
       (if textSizeSlider_value2 q \<noteq> [] then textSizeSlider_value2 q
        else textSizeSlider_value2 q0) \<and>
     scriptBox_style_left q' =
       (if scriptBox_style_left q \<noteq> [] then scriptBox_style_left q
        else scriptBox_style_left q0) \<and>
     scriptBox_style_top q' =
       (if scriptBox_style_top q \<noteq> [] then scriptBox_style_top q else scriptBox_style_top q0) \<and>
     scriptBox_style_width q' =
       (if scriptBox_style_width q \<noteq> [] then scriptBox_style_width q
        else scriptBox_style_width q0) \<and>
     scriptBox_style_height q' =
       (if scriptBox_style_height q \<noteq> [] then scriptBox_style_height q
        else scriptBox_style_height q0) \<and>
     scriptBox_style_transform q' =
       (if scriptBox_style_transform q \<noteq> [] then scriptBox_style_transform q
        else scriptBox_style_transform q0)"
  unfolding q'_def
  by (simp add: loadSettings2_def saveSettings2_def Let_def truthy_str_def
      updateTextSizeDisplay2_def)

text \<open>The camera name is never empty: it starts as \<open>user\<close>, a switch sets one of the
  two names, and the settings replace it by a stored name only when that is not
  empty.\<close>

lemma camera_frames:
  "currentCamera (toggleRecording env answer now st) = currentCamera st"
  "currentCamera (toggleTextRotation st) = currentCamera st"
  "currentCamera (updateSpeedDisplay now st) = currentCamera st"
  "currentCamera (updateTextSizeDisplay st) = currentCamera st"
  "currentCamera (saveSettings st) = currentCamera st"
  "currentCamera (endDrag st) = currentCamera st"
  "currentCamera (endResize st) = currentCamera st"
  "currentCamera (scrollTick i now st) = currentCamera st"
  "currentCamera (saveRecording env st) = currentCamera st"
  "currentCamera (ondataavailable d st) = currentCamera st"
  "currentCamera (checkCompatibility env st) = currentCamera st"
  by (auto simp: toggleRecording_def startRecording_def startRecording_catch_def
      stopRecording_def setupCamera_def setupCamera_begin_def setupCamera_resume_def
      stop_all_tracks_eq toggleTextRotation_def updateSpeedDisplay_def startScrolling_def
      stopScrolling_def updateTextSizeDisplay_def saveSettings_def endDrag_def endResize_def
      scrollTick_def clearInterval_def saveRecording_def ondataavailable_def
      checkCompatibility_def new_MediaRecorder_def mr_start_def Let_def
      split: option.splits sum.splits prod.splits)

lemma camera_setupCamera:
  "currentCamera (case setupCamera answer st of Inl (e, s) \<Rightarrow> s | Inr s \<Rightarrow> s) =
     currentCamera st"
  by (simp add: setupCamera_def setupCamera_begin_def setupCamera_resume_def stop_all_tracks_eq
      Let_def split: sum.splits option.splits)

lemma camera_switchCamera: "currentCamera (switchCamera answer st) \<noteq> []"
  using camera_setupCamera [of answer "st\<lparr>currentCamera := other_camera (currentCamera st)\<rparr>"]
  by (auto simp: switchCamera_def other_camera_def split: sum.splits)

lemma camera_loadSettings:
  "currentCamera st \<noteq> [] \<Longrightarrow> currentCamera (loadSettings st) \<noteq> []"
  by (auto simp: loadSettings_def Let_def updateTextSizeDisplay_def truthy_str_def
      split: stored.splits option.splits)

lemma camera_handle:
  "currentCamera st \<noteq> [] \<Longrightarrow> currentCamera (handle env e st) \<noteq> []"
  by (cases e)
     (simp_all add: camera_frames camera_switchCamera onstop_def Let_def
        split: prod.splits list.splits)

lemma camera_run:
  "currentCamera st \<noteq> [] \<Longrightarrow> currentCamera (run env evs st) \<noteq> []"
  by (induction evs arbitrary: st) (simp_all add: camera_handle)

lemma camera_init:
  "currentCamera (init env answer now (new_VideoTeleprompter page)) \<noteq> []"
proof -
  let ?s = "updateTextSizeDisplay
              (updateSpeedDisplay now (loadSettings (checkCompatibility env
                 (new_VideoTeleprompter page))))"
  have "currentCamera (init env answer now (new_VideoTeleprompter page)) =
          currentCamera (case setupCamera answer ?s of Inl (e, s) \<Rightarrow> s | Inr s \<Rightarrow> s)"
    by (simp add: init_def split: sum.splits)
  also have "\<dots> = currentCamera (loadSettings (checkCompatibility env
                 (new_VideoTeleprompter page)))"
    by (simp add: camera_setupCamera camera_frames)
  finally show ?thesis
    using camera_loadSettings [of "checkCompatibility env (new_VideoTeleprompter page)"]
    by (simp add: camera_frames new_VideoTeleprompter_def)
qed

lemma camera_reachable:
  "currentCamera (run env evs (init env answer now (new_VideoTeleprompter page))) \<noteq> []"
  by (rule camera_run) (rule camera_init)

lemma fresh_loaded:
  fixes page p :: vt
  defines "st' \<equiv> loadSettings
                    (new_VideoTeleprompter (page\<lparr>localStorage := localStorage (saveSettings p)\<rparr>))"
  shows
    "scriptInput_value st' =
       (if scriptInput_value p \<noteq> [] then scriptInput_value p else scriptInput_value page) \<and>
     speedSlider_value st' =
       (if speedSlider_value p \<noteq> [] then speedSlider_value p else speedSlider_value page) \<and>
     textSizeSlider_value st' =
       (if textSizeSlider_value p \<noteq> [] then textSizeSlider_value p
        else textSizeSlider_value page) \<and>
     currentCamera st' = (if currentCamera p \<noteq> [] then currentCamera p else ''user'') \<and>
     isTextRotated st' = isTextRotated p"
  unfolding st'_def
  by (simp add: loadSettings_def saveSettings_def Let_def truthy_str_def truthy_bool_def
      updateTextSizeDisplay_def new_VideoTeleprompter_def)

text \<open>Start-up changes none of the five preferences after it has loaded them.\<close>

lemma checkCompatibility_effects:
  "checkCompatibility env s = s\<lparr>effects := effects (checkCompatibility env s)\<rparr>"
  by (simp add: checkCompatibility_def Let_def)

lemma loadSettings_effects:
  "scriptInput_value (loadSettings (s\<lparr>effects := es\<rparr>)) = scriptInput_value (loadSettings s)"
  "speedSlider_value (loadSettings (s\<lparr>effects := es\<rparr>)) = speedSlider_value (loadSettings s)"
  "textSizeSlider_value (loadSettings (s\<lparr>effects := es\<rparr>)) =
     textSizeSlider_value (loadSettings s)"
  "isTextRotated (loadSettings (s\<lparr>effects := es\<rparr>)) = isTextRotated (loadSettings s)"
  "currentCamera (loadSettings (s\<lparr>effects := es\<rparr>)) = currentCamera (loadSettings s)"
  by (simp_all add: loadSettings_def Let_def updateTextSizeDisplay_def split: stored.splits)

lemma display_frames:
  "scriptInput_value (updateSpeedDisplay now st) = scriptInput_value st"
  "speedSlider_value (updateSpeedDisplay now st) = speedSlider_value st"
  "textSizeSlider_value (updateSpeedDisplay now st) = textSizeSlider_value st"
  "isTextRotated (updateSpeedDisplay now st) = isTextRotated st"
  "scriptInput_value (updateTextSizeDisplay st) = scriptInput_value st"
  "speedSlider_value (updateTextSizeDisplay st) = speedSlider_value st"
  "textSizeSlider_value (updateTextSizeDisplay st) = textSizeSlider_value st"
  "isTextRotated (updateTextSizeDisplay st) = isTextRotated st"
  by (simp_all add: updateSpeedDisplay_def updateTextSizeDisplay_def startScrolling_def
      stopScrolling_def clearInterval_def Let_def split: option.splits)

lemma setupCamera_frames:
  "scriptInput_value (case setupCamera answer st of Inl (e, s) \<Rightarrow> s | Inr s \<Rightarrow> s) =
     scriptInput_value st"
  "speedSlider_value (case setupCamera answer st of Inl (e, s) \<Rightarrow> s | Inr s \<Rightarrow> s) =
     speedSlider_value st"
  "textSizeSlider_value (case setupCamera answer st of Inl (e, s) \<Rightarrow> s | Inr s \<Rightarrow> s) =
     textSizeSlider_value st"
  "isTextRotated (case setupCamera answer st of Inl (e, s) \<Rightarrow> s | Inr s \<Rightarrow> s) =
     isTextRotated st"
  by (simp_all add: setupCamera_def setupCamera_begin_def setupCamera_resume_def
      stop_all_tracks_eq Let_def split: sum.splits option.splits)

lemma init_settings:
  "scriptInput_value (init env answer now s) = scriptInput_value (loadSettings s)"
  "speedSlider_value (init env answer now s) = speedSlider_value (loadSettings s)"
  "textSizeSlider_value (init env answer now s) = textSizeSlider_value (loadSettings s)"
  "isTextRotated (init env answer now s) = isTextRotated (loadSettings s)"
  "currentCamera (init env answer now s) = currentCamera (loadSettings s)"
proof -
  let ?s = "updateTextSizeDisplay
              (updateSpeedDisplay now (loadSettings (checkCompatibility env s)))"
  let ?c = "case setupCamera answer ?s of Inl (e, s) \<Rightarrow> s | Inr s \<Rightarrow> s"
  have i: "scriptInput_value (init env answer now s) = scriptInput_value ?c"
    "speedSlider_value (init env answer now s) = speedSlider_value ?c"
    "textSizeSlider_value (init env answer now s) = textSizeSlider_value ?c"
    "isTextRotated (init env answer now s) = isTextRotated ?c"
    "currentCamera (init env answer now s) = currentCamera ?c"
    by (simp_all add: init_def split: sum.splits)
  have l: "scriptInput_value (loadSettings (checkCompatibility env s)) =
             scriptInput_value (loadSettings s)"
    "speedSlider_value (loadSettings (checkCompatibility env s)) =
             speedSlider_value (loadSettings s)"
    "textSizeSlider_value (loadSettings (checkCompatibility env s)) =
             textSizeSlider_value (loadSettings s)"
    "isTextRotated (loadSettings (checkCompatibility env s)) = isTextRotated (loadSettings s)"
    "currentCamera (loadSettings (checkCompatibility env s)) = currentCamera (loadSettings s)"
    using loadSettings_effects [where s = s and es = "effects (checkCompatibility env s)"]
      checkCompatibility_effects [of env s]
    by simp_all
  show "scriptInput_value (init env answer now s) = scriptInput_value (loadSettings s)"
    "speedSlider_value (init env answer now s) = speedSlider_value (loadSettings s)"
    "textSizeSlider_value (init env answer now s) = textSizeSlider_value (loadSettings s)"
    "isTextRotated (init env answer now s) = isTextRotated (loadSettings s)"
    "currentCamera (init env answer now s) = currentCamera (loadSettings s)"
    unfolding i
    by (simp_all add: setupCamera_frames camera_setupCamera display_frames camera_frames l)
qed

lemma load_after_save:
  "scriptInput_value (loadSettings (saveSettings p)) = scriptInput_value p
   \<and> speedSlider_value (loadSettings (saveSettings p)) = speedSlider_value p
   \<and> textSizeSlider_value (loadSettings (saveSettings p)) = textSizeSlider_value p
   \<and> isTextRotated (loadSettings (saveSettings p)) = isTextRotated p
   \<and> currentCamera (loadSettings (saveSettings p)) = currentCamera p"
proof -
  have "saveSettings p = p\<lparr>localStorage := localStorage (saveSettings p)\<rparr>"
    by (simp add: saveSettings_def)
  then show ?thesis
    using loadSettings_saved [where ?st0.0 = p and p = p] by simp
qed

lemma load2_after_save2:
  "scriptInput_value2 (loadSettings2 (saveSettings2 q)) = scriptInput_value2 q
   \<and> speedSlider_value2 (loadSettings2 (saveSettings2 q)) = speedSlider_value2 q
   \<and> textSizeSlider_value2 (loadSettings2 (saveSettings2 q)) = textSizeSlider_value2 q
   \<and> scriptBox_style_left (loadSettings2 (saveSettings2 q)) = scriptBox_style_left q
   \<and> scriptBox_style_top (loadSettings2 (saveSettings2 q)) = scriptBox_style_top q
   \<and> scriptBox_style_width (loadSettings2 (saveSettings2 q)) = scriptBox_style_width q
   \<and> scriptBox_style_height (loadSettings2 (saveSettings2 q)) = scriptBox_style_height q
   \<and> scriptBox_style_transform (loadSettings2 (saveSettings2 q)) = scriptBox_style_transform q"
proof -
  have "saveSettings2 q = q\<lparr>localStorage2 := localStorage2 (saveSettings2 q)\<rparr>"
    by (simp add: saveSettings2_def)
  then show ?thesis
    using loadSettings2_saved [where ?q0.0 = q and q = q] by simp
qed


lemma prefs0_fields:
  "scriptInput_value prefs0 = ''good evening''" "speedSlider_value prefs0 = ''200''"
  "textSizeSlider_value prefs0 = ''24''" "currentCamera prefs0 = ''environment''"
  "isTextRotated prefs0"
  by (simp_all add: prefs0_def ready0_eq new_VideoTeleprompter_def page0_def)

lemma prefs_empty_fields:
  "scriptInput_value prefs_empty = []" "speedSlider_value prefs_empty = ''120''"
  "textSizeSlider_value prefs_empty = ''24''" "currentCamera prefs_empty = ''user''"
  "\<not> isTextRotated prefs_empty" "scriptInput_value page_blank = []"
  by (simp_all add: prefs_empty_def page_blank_def ready0_eq new_VideoTeleprompter_def page0_def)



section \<open>The public start and stop of the application\<close>

lemma App_stopRecording_idle: "\<not> vc_isRecording st \<Longrightarrow> App_stopRecording env st = st"
  by (simp add: App_stopRecording_def)

lemma stopRecording_idle: "\<not> isRecording st \<Longrightarrow> stopRecording st = st"
  by (simp add: stopRecording_def split: option.splits)

lemma VideoComponent_stopRecording_idle:
  "\<not> vc_isRecording st \<Longrightarrow> VideoComponent_stopRecording st = (False, st)"
  by (simp add: VideoComponent_stopRecording_def split: option.splits)

lemma app_recording:
  "App_startRecording env_webm_only app_idle =
     app_idle\<lparr>vc_recordedChunks := [],
              vc_mediaRecorder := Some \<lparr>rec_stream = cam0, mimeType = ''video/webm'',
                                        rec_state = RecordingState, timeslice = Some 1000\<rparr>,
              vc_isRecording := True, sc_isScrolling := True, sc_class_scrolling := True,
              sc_scrollAnimation := Some 1, pendingFrames := {1}, lastFrameId := 1,
              cc_recordButton_recording := True\<rparr>"
  by (simp add: App_startRecording_def ControlsComponent_toggleRecording_def
      VideoComponent_startRecording_def checkRecordingCompatibility_def typesToCheck_def
      new_MediaRecorder_def mr_start_def startScroll_def app_idle_def env_webm_only_def Let_def)

text \<open>
  C2.  \<open>VideoTeleprompterApp.startRecording\<close>, called while a recording is on, stops
  it: the state goes back to idle, the recorder is stopped and the scroll is
  cancelled.  The state is not left unchanged.
\<close>

theorem app_startRecording_while_recording:
  "vc_isRecording (App_startRecording env_webm_only app_idle)
   \<and> \<not> vc_isRecording
         (App_startRecording env_webm_only (App_startRecording env_webm_only app_idle))
   \<and> vc_mediaRecorder
         (App_startRecording env_webm_only (App_startRecording env_webm_only app_idle)) =
       Some \<lparr>rec_stream = cam0, mimeType = ''video/webm'', rec_state = Inactive,
             timeslice = Some 1000\<rparr>
   \<and> \<not> sc_isScrolling
         (App_startRecording env_webm_only (App_startRecording env_webm_only app_idle))
   \<and> App_startRecording env_webm_only (App_startRecording env_webm_only app_idle)
       \<noteq> App_startRecording env_webm_only app_idle"
proof -
  let ?rec = "App_startRecording env_webm_only app_idle"
  have r: "vc_isRecording ?rec"
    unfolding app_recording by simp
  have a: "\<not> vc_isRecording (App_startRecording env_webm_only ?rec)"
    and b: "vc_mediaRecorder (App_startRecording env_webm_only ?rec) =
       Some \<lparr>rec_stream = cam0, mimeType = ''video/webm'', rec_state = Inactive,
             timeslice = Some 1000\<rparr>"
    and c: "\<not> sc_isScrolling (App_startRecording env_webm_only ?rec)"
    unfolding app_recording
    by (simp_all add: App_startRecording_def ControlsComponent_toggleRecording_def
        VideoComponent_stopRecording_def stopScroll_def mr_stop_def app_idle_def Let_def)
  from r a have "App_startRecording env_webm_only ?rec \<noteq> ?rec" by auto
  with r a b c show ?thesis by blast
qed


end
